theory Spec2Isabelle
  imports Complex_Main "HOL-Library.Sublist" "HOL-Library.Monad_Syntax"
begin

section \<open>Python strings\<close>

text \<open>
  A Python \<open>str\<close> is modelled as a \<open>string\<close>: each \<open>char\<close> stands for the code point
  of the same number, so the model covers the code points U+0000 to U+00FF.  The functions
  below are the string operations of the standard library that the diagnostic link uses,
  written out for that range.
\<close>

definition code_point :: "char \<Rightarrow> nat" where
  "code_point c = of_char c"

text \<open>\<open>sub in s\<close> on strings: \<open>sub\<close> occurs in \<open>s\<close> as a contiguous run.\<close>

fun py_in :: "string \<Rightarrow> string \<Rightarrow> bool" where
  "py_in sub [] = (sub = [])"
| "py_in sub (c # cs) = (prefix sub (c # cs) \<or> py_in sub cs)"

text \<open>\<open>s.replace(" ", "")\<close>.\<close>

definition remove_spaces :: "string \<Rightarrow> string" where
  "remove_spaces s = filter (\<lambda>c. c \<noteq> CHR '' '') s"

text \<open>\<open>str.lower()\<close>: the letters A-Z and the upper-case letters of U+00C0..U+00DE
  (all but the multiplication sign U+00D7) move up by 32; nothing else changes.\<close>

definition lower_char :: "char \<Rightarrow> char" where
  "lower_char c =
     (let n = code_point c
      in if (65 \<le> n \<and> n \<le> 90) \<or> (192 \<le> n \<and> n \<le> 222 \<and> n \<noteq> 215)
         then char_of (n + 32) else c)"

definition lower :: "string \<Rightarrow> string" where
  "lower s = map lower_char s"

text \<open>The slices \<open>s[i:j]\<close> (for \<open>0 \<le> i\<close>, \<open>0 \<le> j\<close>), \<open>s[-n:]\<close> and \<open>s[-m:-n]\<close>
  (for \<open>0 < n \<le> m\<close>).  A slice never raises: out of range it is cut to the string.\<close>

definition py_slice :: "nat \<Rightarrow> nat \<Rightarrow> 'a list \<Rightarrow> 'a list" where
  "py_slice i j s = drop i (take j s)"

definition py_last :: "nat \<Rightarrow> 'a list \<Rightarrow> 'a list" where
  "py_last n s = drop (length s - n) s"

definition py_mid :: "nat \<Rightarrow> nat \<Rightarrow> 'a list \<Rightarrow> 'a list" where
  "py_mid m n s = drop (length s - m) (take (length s - n) s)"

section \<open>The integer parser \<open>int(s, 16)\<close>\<close>

text \<open>
  \<open>int(s, 16)\<close> skips leading white space, reads an optional sign, an optional prefix
  \<open>0x\<close> or \<open>0X\<close> (which one underscore may follow), then a non-empty run of hex digits in
  which single underscores may separate digits, then trailing white space up to the end
  of the string.  Anything else raises \<open>ValueError\<close>.  White space for the parser is
  U+0009..U+000D, the space, U+0085 and U+00A0.
\<close>

datatype py_error = ValueError | KeyError string | OSError string

definition int_space :: "char \<Rightarrow> bool" where
  "int_space c = (let n = code_point c in (9 \<le> n \<and> n \<le> 13) \<or> n = 32 \<or> n = 133 \<or> n = 160)"

definition hex_digit :: "char \<Rightarrow> nat option" where
  "hex_digit c =
     (let n = code_point c
      in if 48 \<le> n \<and> n \<le> 57 then Some (n - 48)
         else if 97 \<le> n \<and> n \<le> 102 then Some (n - 87)
         else if 65 \<le> n \<and> n \<le> 70 then Some (n - 55)
         else None)"

definition in_run :: "char \<Rightarrow> bool" where
  "in_run c = (hex_digit c \<noteq> None \<or> c = CHR ''_'')"

text \<open>The run of digits is valid when it is not empty, does not start or end with an
  underscore and has no two underscores in a row.\<close>

fun run_ok :: "string \<Rightarrow> bool" where
  "run_ok [] = False"
| "run_ok [c] = (c \<noteq> CHR ''_'')"
| "run_ok (c # d # cs) = (c \<noteq> CHR ''_'' \<and> (d = CHR ''_'' \<longrightarrow> cs \<noteq> [] \<and> hd cs \<noteq> CHR ''_'') \<and>
     run_ok (if d = CHR ''_'' then cs else d # cs))"

fun run_value :: "nat \<Rightarrow> string \<Rightarrow> nat" where
  "run_value acc [] = acc"
| "run_value acc (c # cs) =
     (case hex_digit c of None \<Rightarrow> run_value acc cs | Some d \<Rightarrow> run_value (16 * acc + d) cs)"

definition skip_sign :: "string \<Rightarrow> string" where
  "skip_sign s = (case s of [] \<Rightarrow> [] | c # cs \<Rightarrow> if c = CHR ''+'' \<or> c = CHR ''-'' then cs else s)"

definition skip_prefix :: "string \<Rightarrow> string" where
  "skip_prefix s =
     (case s of
        c0 # cx # cs \<Rightarrow>
          if c0 = CHR ''0'' \<and> (cx = CHR ''x'' \<or> cx = CHR ''X'')
          then (case cs of [] \<Rightarrow> [] | u # cs' \<Rightarrow> if u = CHR ''_'' then cs' else cs)
          else s
      | _ \<Rightarrow> s)"

definition py_int16 :: "string \<Rightarrow> py_error + int" where
  "py_int16 s =
     (let s1 = dropWhile int_space s;
          s3 = skip_prefix (skip_sign s1);
          run = takeWhile in_run s3;
          rest = dropWhile in_run s3
      in if run_ok run \<and> list_all int_space rest
         then Inr ((if take 1 s1 = ''-'' then - 1 else 1) * int (run_value 0 run))
         else Inl ValueError)"

section \<open>Constants of the diagnostic link\<close>

definition PID_SPEED :: string where "PID_SPEED = ''010D''"
definition PID_RPM :: string where "PID_RPM = ''010C''"
definition PID_ENGINE_TEMP :: string where "PID_ENGINE_TEMP = ''0105''"
definition PID_FUEL_LEVEL :: string where "PID_FUEL_LEVEL = ''012F''"
definition PID_INTAKE_PRESSURE :: string where "PID_INTAKE_PRESSURE = ''010B''"

definition PID_FIAT_TURBO_PRESSURE :: string where "PID_FIAT_TURBO_PRESSURE = ''015F''"
definition PID_FIAT_CLUTCH_STATUS :: string where "PID_FIAT_CLUTCH_STATUS = ''0160''"
definition PID_TOYOTA_FUEL_CONSUMPTION :: string where "PID_TOYOTA_FUEL_CONSUMPTION = ''015E''"
definition PID_TOYOTA_HYBRID_BATTERY :: string where "PID_TOYOTA_HYBRID_BATTERY = ''01A2''"
definition PID_VAG_BOOST_PRESSURE :: string where "PID_VAG_BOOST_PRESSURE = ''01A6''"
definition PID_VAG_OIL_TEMP :: string where "PID_VAG_OIL_TEMP = ''015C''"

section \<open>The metric decoder \<open>parse_pid_response\<close>\<close>

text \<open>
  The decoder returns a Python \<open>int\<close>, a Python \<open>float\<close> (where the formula divides
  with \<open>/\<close>) or \<open>None\<close>.  A float is modelled by the exact quotient it is the nearest
  double of; the quotients by 4 are doubles themselves.
\<close>

datatype pynum = PyInt int | PyFloat rat

text \<open>\<open>try: data_byte = int(response[-2:], 16); return f(data_byte) except: return None\<close>.\<close>

definition decode_byte :: "(int \<Rightarrow> pynum) \<Rightarrow> string \<Rightarrow> pynum option" where
  "decode_byte f response =
     (case py_int16 (py_last 2 response) of Inl e \<Rightarrow> None | Inr data_byte \<Rightarrow> Some (f data_byte))"

definition decode_rpm :: "string \<Rightarrow> pynum option" where
  "decode_rpm response =
     (case py_int16 (py_mid 4 2 response) of
        Inl e \<Rightarrow> None
      | Inr a \<Rightarrow>
          (case py_int16 (py_last 2 response) of
             Inl e \<Rightarrow> None
           | Inr b \<Rightarrow> Some (PyFloat (of_int (256 * a + b) / 4))))"

definition parse_pid_response :: "string \<Rightarrow> string \<Rightarrow> pynum option" where
  "parse_pid_response response0 pid =
     (if py_in ''NO DATA'' response0 \<or> py_in ''ERROR'' response0 \<or> response0 = [] then None
      else
        let response = remove_spaces response0 in
        if py_in (lower (py_slice 2 4 pid)) (lower response) then
          if pid = PID_SPEED then
            (if length response \<ge> 4 then decode_byte PyInt response else None)
          else if pid = PID_RPM then
            (if length response \<ge> 6 then decode_rpm response else None)
          else if pid = PID_ENGINE_TEMP then
            (if length response \<ge> 4 then decode_byte (\<lambda>b. PyInt (b - 40)) response else None)
          else if pid = PID_FUEL_LEVEL then
            (if length response \<ge> 4
             then decode_byte (\<lambda>b. PyFloat (of_int (b * 100) / 255)) response else None)
          else if pid = PID_INTAKE_PRESSURE then
            (if length response \<ge> 4 then decode_byte PyInt response else None)
          else if pid \<in> set [PID_FIAT_TURBO_PRESSURE, PID_VAG_BOOST_PRESSURE] then
            (if length response \<ge> 4 then decode_byte (\<lambda>b. PyInt (b * 2)) response else None)
          else if pid = PID_FIAT_CLUTCH_STATUS then
            (if length response \<ge> 4 then decode_byte PyInt response else None)
          else if pid = PID_TOYOTA_FUEL_CONSUMPTION then
            (if length response \<ge> 4
             then decode_byte (\<lambda>b. PyFloat (of_int b / 10)) response else None)
          else if pid = PID_TOYOTA_HYBRID_BATTERY then
            (if length response \<ge> 4
             then decode_byte (\<lambda>b. PyFloat (of_int (b * 100) / 255)) response else None)
          else if pid = PID_VAG_OIL_TEMP then
            (if length response \<ge> 4 then decode_byte (\<lambda>b. PyInt (b - 40)) response else None)
          else None
        else None)"

section \<open>The trouble-code decoder\<close>

text \<open>The dictionary \<open>DTC_CODES\<close>, in the order of the source.\<close>

definition DTC_CODES :: "(string \<times> string) list" where
  "DTC_CODES = [
    (''P0100'', ''Mass or Volume Air Flow Circuit Malfunction''),
    (''P0101'', ''Mass or Volume Air Flow Circuit Range/Performance Problem''),
    (''P0102'', ''Mass or Volume Air Flow Circuit Low Input''),
    (''P0103'', ''Mass or Volume Air Flow Circuit High Input''),
    (''P0104'', ''Mass or Volume Air Flow Circuit Intermittent''),
    (''P0105'', ''Manifold Absolute Pressure/Barometric Pressure Circuit Malfunction''),
    (''P0106'', ''Manifold Absolute Pressure/Barometric Pressure Circuit Range/Performance Problem''),
    (''P0107'', ''Manifold Absolute Pressure/Barometric Pressure Circuit Low Input''),
    (''P0108'', ''Manifold Absolute Pressure/Barometric Pressure Circuit High Input''),
    (''P0109'', ''Manifold Absolute Pressure/Barometric Pressure Circuit Intermittent''),
    (''P0110'', ''Intake Air Temperature Circuit Malfunction''),
    (''P0111'', ''Intake Air Temperature Circuit Range/Performance Problem''),
    (''P0112'', ''Intake Air Temperature Circuit Low Input''),
    (''P0113'', ''Intake Air Temperature Circuit High Input''),
    (''P0114'', ''Intake Air Temperature Circuit Intermittent''),
    (''P0115'', ''Engine Coolant Temperature Circuit Malfunction''),
    (''P0116'', ''Engine Coolant Temperature Circuit Range/Performance Problem''),
    (''P0117'', ''Engine Coolant Temperature Circuit Low Input''),
    (''P0118'', ''Engine Coolant Temperature Circuit High Input''),
    (''P0119'', ''Engine Coolant Temperature Circuit Intermittent''),
    (''P0120'', ''Throttle Position Sensor/Switch A Circuit Malfunction''),
    (''P0121'', ''Throttle Position Sensor/Switch A Circuit Range/Performance Problem''),
    (''P0122'', ''Throttle Position Sensor/Switch A Circuit Low Input''),
    (''P0123'', ''Throttle Position Sensor/Switch A Circuit High Input''),
    (''P0124'', ''Throttle Position Sensor/Switch A Circuit Intermittent''),
    (''P0125'', ''Insufficient Coolant Temperature for Closed Loop Fuel Control''),
    (''P0126'', ''Insufficient Coolant Temperature for Stable Operation''),
    (''P0128'', ''Coolant Thermostat (Coolant Temperature Below Thermostat Regulating Temperature)''),
    (''P0130'', ''O2 Sensor Circuit Malfunction (Bank 1 Sensor 1)''),
    (''P0131'', ''O2 Sensor Circuit Low Voltage (Bank 1 Sensor 1)''),
    (''P0132'', ''O2 Sensor Circuit High Voltage (Bank 1 Sensor 1)''),
    (''P0133'', ''O2 Sensor Circuit Slow Response (Bank 1 Sensor 1)''),
    (''P0134'', ''O2 Sensor Circuit No Activity Detected (Bank 1 Sensor 1)''),
    (''P0135'', ''O2 Sensor Heater Circuit Malfunction (Bank 1 Sensor 1)''),
    (''P0171'', ''System Too Lean (Bank 1)''),
    (''P0172'', ''System Too Rich (Bank 1)''),
    (''P0300'', ''Random/Multiple Cylinder Misfire Detected''),
    (''P0301'', ''Cylinder 1 Misfire Detected''),
    (''P0302'', ''Cylinder 2 Misfire Detected''),
    (''P0303'', ''Cylinder 3 Misfire Detected''),
    (''P0304'', ''Cylinder 4 Misfire Detected'')]"

text \<open>\<open>DTC_CODES.get(full_code, "Unknown code")\<close>.\<close>

definition dtc_description :: "string \<Rightarrow> string" where
  "dtc_description full_code =
     (case map_of DTC_CODES full_code of Some d \<Rightarrow> d | None \<Rightarrow> ''Unknown code'')"

text \<open>The chain of comparisons on \<open>code_bytes[0]\<close>; \<open>first_char\<close> starts as the empty
  string and stays empty when no comparison succeeds.\<close>

definition first_char :: "char \<Rightarrow> string" where
  "first_char c =
     (if c = CHR ''0'' then ''P''
      else if c = CHR ''1'' then ''C''
      else if c = CHR ''2'' then ''B''
      else if c = CHR ''3'' then ''U''
      else [])"

text \<open>
  The body of the loop for one group \<open>code_bytes = response[i:i+4]\<close>: the entries it
  appends to \<open>dtc_codes\<close>.  An \<open>IndexError\<close> from \<open>code_bytes[0]\<close> (on an empty group,
  which the loop condition excludes) would be swallowed by \<open>except: pass\<close>.
\<close>

definition decode_group :: "string \<Rightarrow> (string \<times> string) list" where
  "decode_group code_bytes =
     (if code_bytes \<noteq> ''0000'' then
        (case code_bytes of
           [] \<Rightarrow> []
         | c # _ \<Rightarrow>
             let code_number = py_slice 1 4 code_bytes;
                 full_code = first_char c @ code_number
             in [(full_code, dtc_description full_code)])
      else [])"

text \<open>\<open>while i < len(response) - 3: ...; i += 4\<close>.  The comparison is on integers, so it
  is false for every \<open>i\<close> when the response has fewer than three characters.\<close>

function dtc_loop :: "string \<Rightarrow> nat \<Rightarrow> (string \<times> string) list \<Rightarrow> (string \<times> string) list" where
  "dtc_loop response i dtc_codes =
     (if int i < int (length response) - 3
      then dtc_loop response (i + 4) (dtc_codes @ decode_group (py_slice i (i + 4) response))
      else dtc_codes)"
  by pat_completeness auto
termination
  by (relation "measure (\<lambda>(response, i, dtc_codes). length response - i)") auto

text \<open>The decoding part of \<open>read_dtc\<close>: from the response of the read command to the
  list of codes.\<close>

definition decode_dtc :: "string \<Rightarrow> (string \<times> string) list" where
  "decode_dtc response =
     (if \<not> py_in ''NO DATA'' response \<and> \<not> py_in ''ERROR'' response \<and> response \<noteq> []
      then dtc_loop (remove_spaces response) 0 []
      else [])"

section \<open>The link object and its environment\<close>

text \<open>
  More string operations.  \<open>str.strip()\<close> removes the white space of \<open>str.isspace\<close> at both
  ends: U+0009..U+000D, U+001C..U+0020, U+0085 and U+00A0.
\<close>

definition strip_space :: "char \<Rightarrow> bool" where
  "strip_space c =
     (let n = code_point c in (9 \<le> n \<and> n \<le> 13) \<or> (28 \<le> n \<and> n \<le> 32) \<or> n = 133 \<or> n = 160)"

definition py_strip :: "string \<Rightarrow> string" where
  "py_strip s = rev (dropWhile strip_space (rev (dropWhile strip_space s)))"

text \<open>\<open>sep.join(xs)\<close>.\<close>

fun py_join :: "string \<Rightarrow> string list \<Rightarrow> string" where
  "py_join sep [] = []"
| "py_join sep [x] = x"
| "py_join sep (x # y # xs) = x @ sep @ py_join sep (y # xs)"

text \<open>\<open>str.encode()\<close>: UTF-8, one byte below U+0080 and two bytes from there to U+00FF.
  Bytes are \<open>char\<close>s as well.\<close>

definition encode_char :: "char \<Rightarrow> string" where
  "encode_char c =
     (let n = code_point c
      in if n < 128 then [c] else [char_of (192 + n div 64), char_of (128 + n mod 64)])"

definition encode :: "string \<Rightarrow> string" where
  "encode s = concat (map encode_char s)"

text \<open>\<open>d[k] = v\<close> on a dictionary kept as a list of pairs in insertion order.\<close>

fun dict_set :: "'k \<Rightarrow> 'v \<Rightarrow> ('k \<times> 'v) list \<Rightarrow> ('k \<times> 'v) list" where
  "dict_set k v [] = [(k, v)]"
| "dict_set k v ((k', v') # d) = (if k = k' then (k, v) # d else (k', v') # dict_set k v d)"

definition TIMEOUT :: rat where "TIMEOUT = 2"

definition CMD_RESET :: string where "CMD_RESET = ''ATZ''"
definition CMD_VERSION :: string where "CMD_VERSION = ''ATI''"
definition CMD_ECHO_OFF :: string where "CMD_ECHO_OFF = ''ATE0''"
definition CMD_HEADERS_OFF :: string where "CMD_HEADERS_OFF = ''ATH0''"
definition CMD_LINEFEEDS_OFF :: string where "CMD_LINEFEEDS_OFF = ''ATL0''"
definition CMD_AUTO_PROTOCOL :: string where "CMD_AUTO_PROTOCOL = ''ATSP0''"
definition CMD_KWP2000 :: string where "CMD_KWP2000 = ''ATSP4''"
definition CMD_ISO9141 :: string where "CMD_ISO9141 = ''ATSP3''"
definition CMD_CAN_11BIT_500K :: string where "CMD_CAN_11BIT_500K = ''ATSP6''"
definition CMD_KWP1281 :: string where "CMD_KWP1281 = ''ATSP5''"
definition CMD_READ_DTC :: string where "CMD_READ_DTC = ''03''"
definition CMD_CLEAR_DTC :: string where "CMD_CLEAR_DTC = ''04''"

record profile =
  protocol_cmd :: string
  fallback_cmd :: string
  specific_pids :: "(string \<times> string) list"

definition VEHICLE_PROFILES :: "(string \<times> profile) list" where
  "VEHICLE_PROFILES = [
    (''Fiat 500 Series 1'',
      \<lparr>protocol_cmd = CMD_KWP2000, fallback_cmd = CMD_ISO9141,
       specific_pids = [(''Turbo Pressure'', PID_FIAT_TURBO_PRESSURE),
                        (''Clutch Status'', PID_FIAT_CLUTCH_STATUS)]\<rparr>),
    (''Toyota C-HR/Corolla'',
      \<lparr>protocol_cmd = CMD_CAN_11BIT_500K, fallback_cmd = CMD_AUTO_PROTOCOL,
       specific_pids = [(''Fuel Consumption'', PID_TOYOTA_FUEL_CONSUMPTION),
                        (''Hybrid Battery'', PID_TOYOTA_HYBRID_BATTERY)]\<rparr>),
    (''Volkswagen Group'',
      \<lparr>protocol_cmd = CMD_CAN_11BIT_500K, fallback_cmd = CMD_KWP1281,
       specific_pids = [(''Boost Pressure'', PID_VAG_BOOST_PRESSURE),
                        (''Oil Temperature'', PID_VAG_OIL_TEMP)]\<rparr>)]"

text \<open>
  The environment is a script: the list of what the calls to the socket and to the clock
  will answer, in the order of the calls.  A call takes the head of the script.  A function
  of the model returns \<open>None\<close> when the script does not describe a run of it (it ends too
  early, or its head is no answer to the call that is made); every run of the program is
  described by some script.
\<close>

datatype event =
    Created nat        \<comment> \<open>\<open>socket.socket(...)\<close> returned the socket with this handle\<close>
  | Connected          \<comment> \<open>\<open>socket.connect\<close> returned\<close>
  | Sent               \<comment> \<open>\<open>socket.send\<close> returned\<close>
  | Received string    \<comment> \<open>\<open>socket.recv\<close> returned these bytes; none when the peer has closed\<close>
  | Clock rat          \<comment> \<open>\<open>time.time()\<close> returned this number of seconds\<close>
  | Raised string      \<comment> \<open>the call raised an \<open>Exception\<close> \<open>e\<close>; the string is \<open>str(e)\<close>\<close>

text \<open>What the program does to the outside, in order.\<close>

datatype action =
    Write nat string                       \<comment> \<open>\<open>socket.send\<close> called with these bytes\<close>
  | Close nat                              \<comment> \<open>\<open>socket.close()\<close>\<close>
  | Emit_connected bool string             \<comment> \<open>\<open>connected.emit\<close>\<close>
  | Emit_data "(string \<times> pynum option) list" \<comment> \<open>\<open>data_received.emit\<close>\<close>
  | Emit_dtc "(string \<times> string) list"      \<comment> \<open>\<open>dtc_received.emit\<close>\<close>
  | Print string
  | Sleep rat

text \<open>
  The fields of \<open>OBDConnection\<close> that the operations use (the address and the port only
  name the peer), with the script that is left and the actions so far.
\<close>

record obd =
  socket :: "nat option"
  is_connected :: bool
  running :: bool
  vehicle_profile :: "string option"
  protocol_detected :: "string option"
  script :: "event list"
  trace :: "action list"

definition emit :: "action \<Rightarrow> obd \<Rightarrow> obd" where
  "emit a st = st\<lparr>trace := trace st @ [a]\<rparr>"

text \<open>The object as \<open>__init__\<close> leaves it, with an empty script.\<close>

definition idle :: obd where
  "idle = \<lparr>socket = None, is_connected = False, running = False, vehicle_profile = None,
           protocol_detected = None, script = [], trace = []\<rparr>"

section \<open>The framer \<open>send_command\<close>\<close>

text \<open>
  The reading loop
  \<open>while b'>' not in response and (time.time() - start_time) < TIMEOUT\<close>.
  The clock is read only when the prompt is not there yet.  The result is the buffer
  (\<open>Inr\<close>) or the text of the exception that \<open>recv\<close> raised (\<open>Inl\<close>), with the rest of the
  script.  The difference of two clock readings is taken exactly.
\<close>

fun recv_loop :: "rat \<Rightarrow> string \<Rightarrow> event list \<Rightarrow> ((string + string) \<times> event list) option" where
  "recv_loop start_time response es =
     (if CHR ''>'' \<in> set response then Some (Inr response, es)
      else
        (case es of
           Clock now # es1 \<Rightarrow>
             if now - start_time < TIMEOUT then
               (case es1 of
                  Received chunk # es2 \<Rightarrow>
                    if chunk = [] then Some (Inr response, es2)
                    else recv_loop start_time (response @ chunk) es2
                | Raised msg # es2 \<Rightarrow> Some (Inl msg, es2)
                | _ \<Rightarrow> None)
             else Some (Inr response, es1)
         | _ \<Rightarrow> None))"

text \<open>
  The lines after the loop, applied to the decoded buffer; \<open>command\<close> is the command with
  its carriage return.
\<close>

definition clean_response :: "string \<Rightarrow> string \<Rightarrow> string" where
  "clean_response command decoded0 =
     (let decoded1 = py_strip decoded0;
          decoded2 = py_strip (filter (\<lambda>c. c \<noteq> CHR ''>'')
                       (map (\<lambda>c. if c = CHR 0x0A then CHR '' '' else c)
                         (filter (\<lambda>c. c \<noteq> CHR 0x0D) decoded1)))
      in if prefix (py_strip command) decoded2
         then py_strip (drop (length (py_strip command)) decoded2)
         else decoded2)"

text \<open>
  \<open>send_command\<close>.  The parameter \<open>dec\<close> stands for
  \<open>bytes.decode('utf-8', errors='replace')\<close>, which is total; on ASCII bytes it is the
  identity.  Every exception inside the \<open>try\<close> ends in the \<open>except\<close> branch, which returns
  the text \<open>Error: ...\<close> and changes no field.
\<close>

definition send_command :: "(string \<Rightarrow> string) \<Rightarrow> obd \<Rightarrow> string \<Rightarrow> (string \<times> obd) option" where
  "send_command dec st command0 =
     (case socket st of
        None \<Rightarrow> Some (''Not connected'', st)
      | Some h \<Rightarrow>
          let command = command0 @ [CHR 0x0D];
              st1 = emit (Write h (encode command)) st
          in (case script st1 of
                Sent # Clock start_time # es \<Rightarrow>
                  (case recv_loop start_time [] es of
                     None \<Rightarrow> None
                   | Some (Inr response, es') \<Rightarrow>
                       Some (clean_response command (dec response), st1\<lparr>script := es'\<rparr>)
                   | Some (Inl msg, es') \<Rightarrow> Some (''Error: '' @ msg, st1\<lparr>script := es'\<rparr>))
              | Raised msg # es \<Rightarrow> Some (''Error: '' @ msg, st1\<lparr>script := es\<rparr>)
              | _ \<Rightarrow> None))"

section \<open>The session initialiser \<open>connect_obd\<close>\<close>

text \<open>
  The \<open>except\<close> branch of \<open>connect_obd\<close>, for an exception with text \<open>msg\<close>: the flag is
  cleared, the failure is emitted, and the socket that the object holds, if any, is closed
  and dropped.
\<close>

definition connect_failed :: "obd \<Rightarrow> string \<Rightarrow> bool \<times> obd" where
  "connect_failed st msg =
     (let st1 = emit (Emit_connected False (''Connection error: '' @ msg))
                  (st\<lparr>is_connected := False\<rparr>)
      in (False,
          case socket st1 of
            None \<Rightarrow> st1
          | Some h \<Rightarrow> (emit (Close h) st1)\<lparr>socket := None\<rparr>))"

text \<open>The end of the \<open>try\<close> block: the flag is set and the log is emitted.\<close>

definition connect_done :: "obd \<Rightarrow> string list \<Rightarrow> bool \<times> obd" where
  "connect_done st responses =
     (True, emit (Emit_connected True (py_join [CHR 0x0A] responses)) (st\<lparr>is_connected := True\<rparr>))"

text \<open>\<open>str(e)\<close> for the \<open>KeyError\<close> of a missing profile name: the name in quotes (the
  \<open>repr\<close> of a name without quotes, backslashes or control characters).\<close>

definition key_error_text :: "string \<Rightarrow> string" where
  "key_error_text name = [CHR 0x27] @ name @ [CHR 0x27]"

text \<open>\<open>if self.vehicle_profile:\<close> holds for a name that is not empty.\<close>

definition selected_profile :: "obd \<Rightarrow> string option" where
  "selected_profile st =
     (case vehicle_profile st of None \<Rightarrow> None | Some name \<Rightarrow> if name = [] then None else Some name)"

text \<open>The bytes that \<open>send_command\<close> writes for a command, as an action on the socket
  \<open>h\<close>.\<close>

definition request :: "nat \<Rightarrow> string \<Rightarrow> action" where
  "request h command = Write h (encode (command @ [CHR 0x0D]))"

text \<open>The selection of the protocol, from \<open>if self.vehicle_profile:\<close> to the end of the
  \<open>try\<close> block; \<open>responses\<close> is the log so far.  \<open>send_command\<close> raises nothing; the
  lookup of the profile can raise \<open>KeyError\<close>.\<close>

definition select_protocol ::
  "(string \<Rightarrow> string) \<Rightarrow> string list \<Rightarrow> obd \<Rightarrow> (bool \<times> obd) option" where
  "select_protocol dec responses st5 =
     (case selected_profile st5 of
        Some name \<Rightarrow>
          (case map_of VEHICLE_PROFILES name of
             None \<Rightarrow> Some (connect_failed st5 (key_error_text name))
           | Some prof \<Rightarrow> do {
               (response6, st6) \<leftarrow> send_command dec st5 (protocol_cmd prof);
               (response7, st7) \<leftarrow>
                 (if \<not> py_in ''OK'' response6 then send_command dec st6 (fallback_cmd prof)
                  else Some (response6, st6));
               (detected, st8) \<leftarrow> send_command dec st7 ''ATDP'';
               Some (connect_done (st8\<lparr>protocol_detected := Some detected\<rparr>)
                       (responses @ [''Protocol: '' @ detected]))
             })
      | None \<Rightarrow> do {
          (response6, st6) \<leftarrow> send_command dec st5 CMD_AUTO_PROTOCOL;
          (detected, st7) \<leftarrow> send_command dec st6 ''ATDP'';
          Some (connect_done (st7\<lparr>protocol_detected := Some detected\<rparr>)
                  (responses @ [''Protocol: '' @ detected]))
        })"

text \<open>The initialisation of the adapter, from \<open>responses = []\<close> on: the five set-up
  commands, of which the first two are logged, then the selection of the protocol.\<close>

definition initialise :: "(string \<Rightarrow> string) \<Rightarrow> obd \<Rightarrow> (bool \<times> obd) option" where
  "initialise dec st0 = do {
     (response1, st1) \<leftarrow> send_command dec st0 CMD_RESET;
     (response2, st2) \<leftarrow> send_command dec st1 CMD_VERSION;
     (response3, st3) \<leftarrow> send_command dec st2 CMD_ECHO_OFF;
     (response4, st4) \<leftarrow> send_command dec st3 CMD_HEADERS_OFF;
     (response5, st5) \<leftarrow> send_command dec st4 CMD_LINEFEEDS_OFF;
     select_protocol dec [''Reset: '' @ response1, ''Version: '' @ response2] st5
   }"

text \<open>\<open>connect_obd\<close>: the socket is made and connected, then the adapter is initialised.
  \<open>settimeout\<close> raises nothing.\<close>

definition connect_obd :: "(string \<Rightarrow> string) \<Rightarrow> obd \<Rightarrow> (bool \<times> obd) option" where
  "connect_obd dec st =
     (case script st of
        Created h # Connected # es \<Rightarrow> initialise dec (st\<lparr>socket := Some h, script := es\<rparr>)
      | Created h # Raised msg # es \<Rightarrow> Some (connect_failed (st\<lparr>socket := Some h, script := es\<rparr>) msg)
      | Raised msg # es \<Rightarrow> Some (connect_failed (st\<lparr>script := es\<rparr>) msg)
      | _ \<Rightarrow> None)"

text \<open>\<open>disconnect_obd\<close>; an exception of \<open>close\<close> is swallowed.\<close>

definition disconnect_obd :: "obd \<Rightarrow> obd" where
  "disconnect_obd st =
     (let st1 = st\<lparr>running := False\<rparr>;
          st2 = (case socket st1 of None \<Rightarrow> st1 | Some h \<Rightarrow> (emit (Close h) st1)\<lparr>socket := None\<rparr>)
      in st2\<lparr>is_connected := False\<rparr>)"

section \<open>Trouble codes on demand\<close>

definition read_dtc :: "(string \<Rightarrow> string) \<Rightarrow> obd \<Rightarrow> ((string \<times> string) list \<times> obd) option" where
  "read_dtc dec st =
     (if \<not> is_connected st \<or> socket st = None then Some ([], st)
      else do {
        (response, st1) \<leftarrow> send_command dec st CMD_READ_DTC;
        let dtc_codes = decode_dtc response;
        Some (dtc_codes, emit (Emit_dtc dtc_codes) st1)
      })"

definition clear_dtc :: "(string \<Rightarrow> string) \<Rightarrow> obd \<Rightarrow> (bool \<times> obd) option" where
  "clear_dtc dec st =
     (if \<not> is_connected st \<or> socket st = None then Some (False, st)
      else do {
        (response, st1) \<leftarrow> send_command dec st CMD_CLEAR_DTC;
        Some (py_in ''OK'' response, st1)
      })"

section \<open>The polling loop \<open>run\<close>\<close>

text \<open>One request of the cycle: \<open>response = self.send_command(pid); data[key] =
  self.parse_pid_response(response, pid)\<close>.\<close>

definition poll_one ::
  "(string \<Rightarrow> string) \<Rightarrow> string \<Rightarrow> string \<Rightarrow> (string \<times> pynum option) list \<times> obd \<Rightarrow>
   ((string \<times> pynum option) list \<times> obd) option" where
  "poll_one dec key pid acc = do {
     (response, st1) \<leftarrow> send_command dec (snd acc) pid;
     Some (dict_set key (parse_pid_response response pid) (fst acc), st1)
   }"

text \<open>\<open>for name, pid in specific_pids.items(): ...\<close>, with the key
  \<open>name.lower().replace(" ", "_")\<close>.\<close>

definition metric_key :: "string \<Rightarrow> string" where
  "metric_key name = map (\<lambda>c. if c = CHR '' '' then CHR ''_'' else c) (lower name)"

fun poll_specific ::
  "(string \<Rightarrow> string) \<Rightarrow> (string \<times> string) list \<Rightarrow> (string \<times> pynum option) list \<times> obd \<Rightarrow>
   ((string \<times> pynum option) list \<times> obd) option" where
  "poll_specific dec [] acc = Some acc"
| "poll_specific dec ((name, pid) # pids) acc =
     poll_one dec (metric_key name) pid acc \<bind> poll_specific dec pids"

text \<open>
  The body of the loop \<open>while self.running and self.is_connected\<close> of \<open>run\<close>, one
  cycle.  The result says whether the loop goes on to its next test (\<open>True\<close>) or leaves
  by \<open>break\<close> (\<open>False\<close>).  Only the lookup of the profile can raise inside the \<open>try\<close>.
  No cycle changes a flag: the flags are cleared by \<open>disconnect_obd\<close> from outside.
\<close>

definition poll_cycle :: "(string \<Rightarrow> string) \<Rightarrow> obd \<Rightarrow> (bool \<times> obd) option" where
  "poll_cycle dec st = do {
     acc1 \<leftarrow> poll_one dec ''speed'' PID_SPEED ([], st);
     acc2 \<leftarrow> poll_one dec ''rpm'' PID_RPM acc1;
     acc3 \<leftarrow> poll_one dec ''engine_temp'' PID_ENGINE_TEMP acc2;
     acc4 \<leftarrow> poll_one dec ''fuel_level'' PID_FUEL_LEVEL acc3;
     acc5 \<leftarrow> poll_one dec ''intake_pressure'' PID_INTAKE_PRESSURE acc4;
     (case selected_profile (snd acc5) of
        Some name \<Rightarrow>
          (case map_of VEHICLE_PROFILES name of
             None \<Rightarrow>
               (let st1 = emit (Print (''Error in data polling: '' @ key_error_text name)) (snd acc5)
                in if \<not> is_connected st1 then Some (False, st1)
                   else Some (True, emit (Sleep 1) st1))
           | Some prof \<Rightarrow> do {
               (data, st1) \<leftarrow> poll_specific dec (specific_pids prof) acc5;
               Some (True, emit (Sleep (1 / 2)) (emit (Emit_data data) st1))
             })
      | None \<Rightarrow>
          Some (True, emit (Sleep (1 / 2)) (emit (Emit_data (fst acc5)) (snd acc5))))
   }"

text \<open>The snapshots and the logs among the actions of a trace.\<close>

fun snapshot_of :: "action \<Rightarrow> (string \<times> pynum option) list option" where
  "snapshot_of (Emit_data d) = Some d"
| "snapshot_of _ = None"

definition snapshots :: "action list \<Rightarrow> (string \<times> pynum option) list list" where
  "snapshots tr = List.map_filter snapshot_of tr"

fun log_of :: "action \<Rightarrow> string option" where
  "log_of (Emit_connected ok msg) = Some msg"
| "log_of _ = None"

definition logs :: "action list \<Rightarrow> string list" where
  "logs tr = List.map_filter log_of tr"

text \<open>The script of an exchange in which \<open>send\<close> succeeds and the adapter answers at
  once with the text, two carriage returns and the prompt, in one chunk.\<close>

definition answer :: "string \<Rightarrow> event list" where
  "answer text = [Sent, Clock 0, Clock 0, Received (text @ [CHR 0x0D, CHR 0x0D, CHR ''>''])]"

text \<open>
  Every run of \<open>send_command\<close> on a held socket that returns is one of the following
  exchanges.  Either \<open>send\<close> raises, or it returns, the clock is read, and the loop makes a
  number of reads, each after a reading of the clock that is before the deadline and each
  delivering a chunk that is not empty, until one of four things ends it: the prompt is in
  the buffer; the clock has reached the deadline; the peer has closed the connection (an
  empty chunk); or \<open>recv\<close> raises.  The numbers are the readings of the clock.
\<close>

datatype ending = Prompt | Deadline rat | Closed rat | Failed rat string

datatype exchange = Send_raises string | Exchange rat "(rat \<times> string) list" ending

text \<open>The events of an exchange, in the order in which the calls meet them.\<close>

fun ending_events :: "ending \<Rightarrow> event list" where
  "ending_events Prompt = []"
| "ending_events (Deadline t) = [Clock t]"
| "ending_events (Closed t) = [Clock t, Received []]"
| "ending_events (Failed t msg) = [Clock t, Raised msg]"

fun exchange_events :: "exchange \<Rightarrow> event list" where
  "exchange_events (Send_raises msg) = [Raised msg]"
| "exchange_events (Exchange t0 reads e) =
     Sent # Clock t0 # concat (map (\<lambda>(t, chunk). [Clock t, Received chunk]) reads) @ ending_events e"

text \<open>
  The conditions under which the loop reads an exchange as it is written: every read comes
  before the deadline with a chunk that is not empty, the prompt is in the last chunk and in
  no earlier one when the prompt ends the exchange, and in no chunk otherwise; the last
  reading of the clock is at or after the deadline for \<open>Deadline\<close> and before it for
  \<open>Closed\<close> and \<open>Failed\<close>.
\<close>

fun ending_ok :: "rat \<Rightarrow> (rat \<times> string) list \<Rightarrow> ending \<Rightarrow> bool" where
  "ending_ok t0 reads Prompt =
     (reads \<noteq> [] \<and> CHR ''>'' \<notin> set (concat (map snd (butlast reads))) \<and>
      CHR ''>'' \<in> set (snd (last reads)))"
| "ending_ok t0 reads (Deadline t) =
     (CHR ''>'' \<notin> set (concat (map snd reads)) \<and> TIMEOUT \<le> t - t0)"
| "ending_ok t0 reads (Closed t) =
     (CHR ''>'' \<notin> set (concat (map snd reads)) \<and> t - t0 < TIMEOUT)"
| "ending_ok t0 reads (Failed t msg) =
     (CHR ''>'' \<notin> set (concat (map snd reads)) \<and> t - t0 < TIMEOUT)"

fun exchange_ok :: "exchange \<Rightarrow> bool" where
  "exchange_ok (Send_raises msg) = True"
| "exchange_ok (Exchange t0 reads e) =
     (list_all (\<lambda>(t, chunk). t - t0 < TIMEOUT \<and> chunk \<noteq> []) reads \<and> ending_ok t0 reads e)"

text \<open>
  What the caller of \<open>send_command\<close> is to get from an exchange: the text of the exception
  after \<open>Error: \<close> when \<open>send\<close> or \<open>recv\<close> raised, and otherwise all the bytes that were read,
  decoded and cleaned.
\<close>

fun result_of :: "(string \<Rightarrow> string) \<Rightarrow> string \<Rightarrow> exchange \<Rightarrow> string" where
  "result_of dec command (Send_raises msg) = ''Error: '' @ msg"
| "result_of dec command (Exchange t0 reads (Failed t msg)) = ''Error: '' @ msg"
| "result_of dec command (Exchange t0 reads e) =
     clean_response (command @ [CHR 0x0D]) (dec (concat (map snd reads)))"

text \<open>
  The metrics of a cycle, as pairs of the key in the snapshot and the parameter identifier:
  the five standard ones, then those of a profile in the order of its declaration.  With
  the responses \<open>rs\<close> to the requests, \<open>snapshot_for\<close> is the snapshot that pairs each key
  with the decoded response.
\<close>

definition standard_metrics :: "(string \<times> string) list" where
  "standard_metrics =
     [(''speed'', PID_SPEED), (''rpm'', PID_RPM), (''engine_temp'', PID_ENGINE_TEMP),
      (''fuel_level'', PID_FUEL_LEVEL), (''intake_pressure'', PID_INTAKE_PRESSURE)]"

definition profile_metrics :: "profile \<Rightarrow> (string \<times> string) list" where
  "profile_metrics prof = map (\<lambda>(name, pid). (metric_key name, pid)) (specific_pids prof)"

definition snapshot_for :: "(string \<times> string) list \<Rightarrow> string list \<Rightarrow> (string \<times> pynum option) list" where
  "snapshot_for metrics rs =
     map (\<lambda>((key, pid), r). (key, parse_pid_response r pid)) (zip metrics rs)"

text \<open>The responses of a cycle: what the exchanges \<open>xs\<close> give to the requests for the
  metrics, one exchange for each request, in order.\<close>

definition responses_of ::
  "(string \<Rightarrow> string) \<Rightarrow> (string \<times> string) list \<Rightarrow> exchange list \<Rightarrow> string list" where
  "responses_of dec metrics xs = map (\<lambda>((key, pid), x). result_of dec pid x) (zip metrics xs)"


section \<open>Properties of the integer parser\<close>

lemmas pid_defs =
  PID_SPEED_def PID_RPM_def PID_ENGINE_TEMP_def PID_FUEL_LEVEL_def PID_INTAKE_PRESSURE_def
  PID_FIAT_TURBO_PRESSURE_def PID_FIAT_CLUTCH_STATUS_def PID_TOYOTA_FUEL_CONSUMPTION_def
  PID_TOYOTA_HYBRID_BATTERY_def PID_VAG_BOOST_PRESSURE_def PID_VAG_OIL_TEMP_def

lemma hex_digit_range:
  "hex_digit c = Some d \<Longrightarrow>
     d < 16 \<and> ((48 \<le> code_point c \<and> code_point c \<le> 57) \<or> (97 \<le> code_point c \<and> code_point c \<le> 102)
       \<or> (65 \<le> code_point c \<and> code_point c \<le> 70))"
  by (auto simp: hex_digit_def Let_def split: if_splits)

lemma hex_digit_plain:
  assumes "hex_digit c = Some d"
  shows "\<not> int_space c" "c \<noteq> CHR ''+''" "c \<noteq> CHR ''-''" "c \<noteq> CHR ''_''"
    "c \<noteq> CHR ''x''" "c \<noteq> CHR ''X''" "in_run c"
  using hex_digit_range [OF assms] assms
  by (auto simp: int_space_def in_run_def code_point_def Let_def)

text \<open>Two hex digits are read as one byte.\<close>

lemma py_int16_two_digits:
  assumes "hex_digit c1 = Some d1" and "hex_digit c0 = Some d0"
  shows "py_int16 [c1, c0] = Inr (int (16 * d1 + d0))"
  using hex_digit_plain [OF assms(1)] hex_digit_plain [OF assms(2)] assms
  by (simp add: py_int16_def skip_sign_def skip_prefix_def Let_def)





section \<open>Properties of the metric decoder\<close>

lemma py_last_2_append: "py_last 2 (pre @ [h1, h0, l1, l0]) = [l1, l0]"
  by (simp add: py_last_def)

lemma py_mid_4_2_append: "py_mid 4 2 (pre @ [h1, h0, l1, l0]) = [h1, h0]"
  by (simp add: py_mid_def)

lemma decode_byte_digits:
  assumes "hex_digit l1 = Some x1" and "hex_digit l0 = Some x0"
  shows "decode_byte f (pre @ [h1, h0, l1, l0]) = Some (f (int (16 * x1 + x0)))"
  by (simp add: decode_byte_def py_last_2_append py_int16_two_digits [OF assms])

lemma decode_rpm_digits:
  assumes "hex_digit h1 = Some y1" and "hex_digit h0 = Some y0"
    and "hex_digit l1 = Some x1" and "hex_digit l0 = Some x0"
  shows "decode_rpm (pre @ [h1, h0, l1, l0]) =
    Some (PyFloat (of_int (256 * int (16 * y1 + y0) + int (16 * x1 + x0)) / 4))"
  by (simp add: decode_rpm_def py_last_2_append py_mid_4_2_append
      py_int16_two_digits [OF assms(1,2)] py_int16_two_digits [OF assms(3,4)])









subsection \<open>The formula table\<close>

text \<open>
  The stated example for engine speed does not hold: the bytes 0x1A and 0xF8 give
  (256 * 26 + 248) / 4 = 1726.0, not 1718.0.
\<close>

theorem engine_speed_example_counterexample:
  "parse_pid_response ''41 0C 1A F8'' PID_RPM = Some (PyFloat 1726) \<and>
   parse_pid_response ''41 0C 1A F8'' PID_RPM \<noteq> Some (PyFloat 1718)"
  by code_simp

text \<open>
  C1 (amended).  For a response that passes the negative-marker check and the signature
  check and whose space-free form has at least four characters, the last two being hex
  digits (for engine speed at least six, the last four being hex digits), the decoder
  returns the value of the formula table: speed is the last byte, engine speed is
  (256 * high byte + low byte) / 4, coolant temperature is the last byte minus 40, fuel
  level is the last byte * 100 / 255, intake pressure is the last byte.  The bytes
  (0x1A, 0xF8) decode to 1726.0 rpm, 0x7B to 83 degrees, 0x00 to -40 degrees, and the
  speed payloads 00 and 3C to 0 and 60 km/h.
\<close>

theorem metric_formula_table:
  assumes gate: "\<not> py_in ''NO DATA'' response \<and> \<not> py_in ''ERROR'' response \<and> response \<noteq> []"
    and signature: "py_in (lower (py_slice 2 4 pid)) (lower (remove_spaces response))"
    and payload: "remove_spaces response = pre @ [h1, h0, l1, l0]"
    and low: "hex_digit l1 = Some x1 \<and> hex_digit l0 = Some x0"
  shows
    "(pid = PID_SPEED \<longrightarrow>
        parse_pid_response response pid = Some (PyInt (int (16 * x1 + x0)))) \<and>
     (pid = PID_RPM \<and> 2 \<le> length pre \<and> hex_digit h1 = Some y1 \<and> hex_digit h0 = Some y0 \<longrightarrow>
        parse_pid_response response pid =
          Some (PyFloat (of_int (256 * int (16 * y1 + y0) + int (16 * x1 + x0)) / 4))) \<and>
     (pid = PID_ENGINE_TEMP \<longrightarrow>
        parse_pid_response response pid = Some (PyInt (int (16 * x1 + x0) - 40))) \<and>
     (pid = PID_FUEL_LEVEL \<longrightarrow>
        parse_pid_response response pid =
          Some (PyFloat (of_int (int (16 * x1 + x0) * 100) / 255))) \<and>
     (pid = PID_INTAKE_PRESSURE \<longrightarrow>
        parse_pid_response response pid = Some (PyInt (int (16 * x1 + x0)))) \<and>
     parse_pid_response ''41 0C 1A F8'' PID_RPM = Some (PyFloat 1726) \<and>
     parse_pid_response ''41 05 7B'' PID_ENGINE_TEMP = Some (PyInt 83) \<and>
     parse_pid_response ''41 05 00'' PID_ENGINE_TEMP = Some (PyInt (- 40)) \<and>
     parse_pid_response ''41 0D 00'' PID_SPEED = Some (PyInt 0) \<and>
     parse_pid_response ''41 0D 3C'' PID_SPEED = Some (PyInt 60)"
proof -
  from low have l1: "hex_digit l1 = Some x1" and l0: "hex_digit l0 = Some x0"
    by simp_all
  note byte = decode_byte_digits [OF l1 l0, of _ pre h1 h0]
  have len: "4 \<le> length (remove_spaces response)"
    by (simp add: payload)
  have speed: "pid = PID_SPEED \<longrightarrow>
      parse_pid_response response pid = Some (PyInt (int (16 * x1 + x0)))"
    using gate signature len by (auto simp: parse_pid_response_def Let_def payload byte)
  have rpm: "pid = PID_RPM \<and> 2 \<le> length pre \<and> hex_digit h1 = Some y1 \<and> hex_digit h0 = Some y0 \<longrightarrow>
      parse_pid_response response pid =
        Some (PyFloat (of_int (256 * int (16 * y1 + y0) + int (16 * x1 + x0)) / 4))"
  proof (intro impI, elim conjE)
    assume p: "pid = PID_RPM" and n: "2 \<le> length pre"
      and h1: "hex_digit h1 = Some y1" and h0: "hex_digit h0 = Some y0"
    have "6 \<le> length (remove_spaces response)"
      using n by (simp add: payload)
    then show "parse_pid_response response pid =
        Some (PyFloat (of_int (256 * int (16 * y1 + y0) + int (16 * x1 + x0)) / 4))"
      using gate signature p
      by (auto simp: parse_pid_response_def Let_def payload pid_defs
          decode_rpm_digits [OF h1 h0 l1 l0, of pre])
  qed
  have temp: "pid = PID_ENGINE_TEMP \<longrightarrow>
      parse_pid_response response pid = Some (PyInt (int (16 * x1 + x0) - 40))"
    using gate signature len
    by (auto simp: parse_pid_response_def Let_def payload byte pid_defs)
  have fuel: "pid = PID_FUEL_LEVEL \<longrightarrow>
      parse_pid_response response pid = Some (PyFloat (of_int (int (16 * x1 + x0) * 100) / 255))"
    using gate signature len
    by (auto simp: parse_pid_response_def Let_def payload byte pid_defs)
  have intake: "pid = PID_INTAKE_PRESSURE \<longrightarrow>
      parse_pid_response response pid = Some (PyInt (int (16 * x1 + x0)))"
    using gate signature len
    by (auto simp: parse_pid_response_def Let_def payload byte pid_defs)
  have e1: "parse_pid_response ''41 0C 1A F8'' PID_RPM = Some (PyFloat 1726)"
    by code_simp
  have e2: "parse_pid_response ''41 05 7B'' PID_ENGINE_TEMP = Some (PyInt 83)"
    by code_simp
  have e3: "parse_pid_response ''41 05 00'' PID_ENGINE_TEMP = Some (PyInt (- 40))"
    by code_simp
  have e4: "parse_pid_response ''41 0D 00'' PID_SPEED = Some (PyInt 0)"
    by code_simp
  have e5: "parse_pid_response ''41 0D 3C'' PID_SPEED = Some (PyInt 60)"
    by code_simp
  from speed rpm temp fuel intake e1 e2 e3 e4 e5 show ?thesis
    by (intro conjI)
qed

theorem metric_formula_table_witness:
  "parse_pid_response ''41 0D 3C'' PID_SPEED = Some (PyInt 60) \<and>
   parse_pid_response ''41 0C 1A F8'' PID_RPM = Some (PyFloat 1726) \<and>
   parse_pid_response ''41 05 7B'' PID_ENGINE_TEMP = Some (PyInt 83) \<and>
   parse_pid_response ''41 2F FF'' PID_FUEL_LEVEL = Some (PyFloat 100) \<and>
   parse_pid_response ''41 0B 64'' PID_INTAKE_PRESSURE = Some (PyInt 100)"
proof -
  have g: "\<And>r. r \<in> set [''41 0D 3C'', ''41 0C 1A F8'', ''41 05 7B'', ''41 2F FF'', ''41 0B 64''] \<Longrightarrow>
      \<not> py_in ''NO DATA'' r \<and> \<not> py_in ''ERROR'' r \<and> r \<noteq> []"
    by auto
  have s1: "py_in (lower (py_slice 2 4 PID_SPEED)) (lower (remove_spaces ''41 0D 3C''))"
    by code_simp
  have s2: "py_in (lower (py_slice 2 4 PID_RPM)) (lower (remove_spaces ''41 0C 1A F8''))"
    by code_simp
  have s3: "py_in (lower (py_slice 2 4 PID_ENGINE_TEMP)) (lower (remove_spaces ''41 05 7B''))"
    by code_simp
  have s4: "py_in (lower (py_slice 2 4 PID_FUEL_LEVEL)) (lower (remove_spaces ''41 2F FF''))"
    by code_simp
  have s5: "py_in (lower (py_slice 2 4 PID_INTAKE_PRESSURE)) (lower (remove_spaces ''41 0B 64''))"
    by code_simp
  have d: "hex_digit CHR ''3'' = Some 3 \<and> hex_digit CHR ''C'' = Some 12"
    "hex_digit CHR ''F'' = Some 15 \<and> hex_digit CHR ''8'' = Some 8"
    "hex_digit CHR ''1'' = Some 1" "hex_digit CHR ''A'' = Some 10"
    "hex_digit CHR ''7'' = Some 7 \<and> hex_digit CHR ''B'' = Some 11"
    "hex_digit CHR ''F'' = Some 15 \<and> hex_digit CHR ''F'' = Some 15"
    "hex_digit CHR ''6'' = Some 6 \<and> hex_digit CHR ''4'' = Some 4"
    by (simp_all add: hex_digit_def code_point_def)
  have p1: "remove_spaces ''41 0D 3C'' = ''41'' @ [CHR ''0'', CHR ''D'', CHR ''3'', CHR ''C'']"
    and p2: "remove_spaces ''41 0C 1A F8'' = ''410C'' @ [CHR ''1'', CHR ''A'', CHR ''F'', CHR ''8'']"
    and p3: "remove_spaces ''41 05 7B'' = ''41'' @ [CHR ''0'', CHR ''5'', CHR ''7'', CHR ''B'']"
    and p4: "remove_spaces ''41 2F FF'' = ''41'' @ [CHR ''2'', CHR ''F'', CHR ''F'', CHR ''F'']"
    and p5: "remove_spaces ''41 0B 64'' = ''41'' @ [CHR ''0'', CHR ''B'', CHR ''6'', CHR ''4'']"
    by (simp_all add: remove_spaces_def)
  have "parse_pid_response ''41 0D 3C'' PID_SPEED = Some (PyInt 60)"
    using metric_formula_table [OF g s1 p1 d(1)] by simp
  moreover have "parse_pid_response ''41 0C 1A F8'' PID_RPM = Some (PyFloat 1726)"
    using metric_formula_table [OF g s2 p2 d(2), of 1 10] d(3,4) by simp
  moreover have "parse_pid_response ''41 05 7B'' PID_ENGINE_TEMP = Some (PyInt 83)"
    using metric_formula_table [OF g s3 p3 d(5)] by simp
  moreover have "parse_pid_response ''41 2F FF'' PID_FUEL_LEVEL = Some (PyFloat 100)"
    using metric_formula_table [OF g s4 p4 d(6)] by simp
  moreover have "parse_pid_response ''41 0B 64'' PID_INTAKE_PRESSURE = Some (PyInt 100)"
    using metric_formula_table [OF g s5 p5 d(7)] by simp
  ultimately show ?thesis by simp
qed

subsection \<open>Unavailable values\<close>




section \<open>Properties of the trouble-code decoder\<close>




lemma DTC_CODES_keys: "\<forall>k \<in> fst ` set DTC_CODES. length k = 5"
  by (simp add: DTC_CODES_def)

lemma dtc_description_short: "length code \<noteq> 5 \<Longrightarrow> dtc_description code = ''Unknown code''"
proof -
  assume "length code \<noteq> 5"
  with DTC_CODES_keys have "code \<notin> fst ` set DTC_CODES" by blast
  then have "map_of DTC_CODES code = None" by (simp add: map_of_eq_None_iff)
  then show ?thesis by (simp add: dtc_description_def)
qed

lemma decode_group_four:
  assumes "length g = 4" and "g \<noteq> ''0000''"
  shows "decode_group g = [(first_char (hd g) @ tl g, dtc_description (first_char (hd g) @ tl g))]"
proof -
  from assms(1) obtain c0 c1 c2 c3 where g: "g = [c0, c1, c2, c3]"
    by (cases g; cases "tl g"; cases "tl (tl g)"; cases "tl (tl (tl g))") auto
  show ?thesis using assms(2) unfolding g
    by (simp add: decode_group_def py_slice_def Let_def)
qed

lemma decode_group_unknown:
  assumes "length g = 4" and "e \<in> set (decode_group g)"
  shows "snd e = ''Unknown code''"
proof (cases "g = ''0000''")
  case True
  then show ?thesis using assms(2) by (simp add: decode_group_def)
next
  case False
  have "length (first_char (hd g) @ tl g) \<noteq> 5"
    using assms(1) by (simp add: first_char_def)
  from dtc_description_short [OF this] decode_group_four [OF assms(1) False] assms(2)
  show ?thesis by simp
qed

text \<open>
  C2.  The decoder takes the space-free response in groups of four characters, skips the
  group \<open>0000\<close> and ignores a shorter remainder (\<open>decode_dtc_groups\<close>), and pairs each
  code with \<open>DTC_CODES.get(code, "Unknown code")\<close>.  But the group \<open>0133\<close> does not yield
  the code \<open>P0133\<close>: the letter is followed by the last three characters of the group
  only, so the code is \<open>P133\<close>.  The keys of \<open>DTC_CODES\<close> have five characters, so no
  code of a four-character group is ever found there (\<open>decode_group_unknown\<close>), and the
  description of \<open>P0133\<close> in the table is never used.
\<close>

theorem group_0133_code:
  "decode_dtc ''0133'' = [(''P133'', ''Unknown code'')] \<and>
   map_of DTC_CODES ''P0133'' = Some ''O2 Sensor Circuit Slow Response (Bank 1 Sensor 1)''"
  by code_simp




section \<open>Properties of the framer\<close>

declare recv_loop.simps [simp del]

lemma recv_loop_prompt: "CHR ''>'' \<in> set response \<Longrightarrow> recv_loop t0 response es = Some (Inr response, es)"
  by (subst recv_loop.simps) simp

lemma recv_loop_read:
  assumes "CHR ''>'' \<notin> set response" and "t - t0 < TIMEOUT" and "chunk \<noteq> []"
  shows "recv_loop t0 response (Clock t # Received chunk # es) = recv_loop t0 (response @ chunk) es"
  using assms by (subst recv_loop.simps) simp

lemma recv_loop_closed:
  assumes "CHR ''>'' \<notin> set response" and "t - t0 < TIMEOUT"
  shows "recv_loop t0 response (Clock t # Received [] # es) = Some (Inr response, es)"
  using assms by (subst recv_loop.simps) simp

lemma recv_loop_deadline:
  assumes "CHR ''>'' \<notin> set response" and "TIMEOUT \<le> t - t0"
  shows "recv_loop t0 response (Clock t # es) = Some (Inr response, es)"
  using assms by (subst recv_loop.simps) simp

lemma recv_loop_raised:
  assumes "CHR ''>'' \<notin> set response" and "t - t0 < TIMEOUT"
  shows "recv_loop t0 response (Clock t # Raised msg # es) = Some (Inl msg, es)"
  using assms by (subst recv_loop.simps) simp

lemma recv_loop_reads:
  assumes "\<forall>(t, chunk)\<in>set reads. t - t0 < TIMEOUT \<and> chunk \<noteq> []"
    and "CHR ''>'' \<notin> set (response @ concat (map snd reads))"
  shows "recv_loop t0 response (concat (map (\<lambda>(t, chunk). [Clock t, Received chunk]) reads) @ tail) =
    recv_loop t0 (response @ concat (map snd reads)) tail"
  using assms
proof (induction reads arbitrary: response)
  case Nil
  then show ?case by simp
next
  case (Cons r reads)
  obtain t chunk where r: "r = (t, chunk)" by (cases r)
  from Cons.prems r have a: "t - t0 < TIMEOUT" "chunk \<noteq> []" "CHR ''>'' \<notin> set response"
    by auto
  have "recv_loop t0 (response @ chunk) (concat (map (\<lambda>(t, chunk). [Clock t, Received chunk]) reads) @ tail) =
      recv_loop t0 ((response @ chunk) @ concat (map snd reads)) tail"
    using Cons.prems r by (intro Cons.IH) auto
  then show ?case using a r by (simp add: recv_loop_read)
qed

lemma send_command_effect:
  assumes "send_command dec st command = Some (r, st')"
  shows "socket st' = socket st \<and> is_connected st' = is_connected st \<and> running st' = running st \<and>
    vehicle_profile st' = vehicle_profile st \<and> protocol_detected st' = protocol_detected st \<and>
    trace st' = trace st @
      (case socket st of None \<Rightarrow> [] | Some h \<Rightarrow> [Write h (encode (command @ [CHR 0x0D]))])"
  using assms
  by (auto simp: send_command_def emit_def Let_def
      split: option.splits list.splits event.splits sum.splits prod.splits)

lemma send_command_not_connected:
  "socket st = None \<Longrightarrow> send_command dec st command = Some (''Not connected'', st)"
  by (simp add: send_command_def)

text \<open>An exchange that the adapter answers returns the cleaned answer.\<close>

lemma send_command_answer:
  assumes "socket st = Some h" and "script st = answer text @ es"
  shows "send_command dec st command =
    Some (clean_response (command @ [CHR 0x0D]) (dec (text @ [CHR 0x0D, CHR 0x0D, CHR ''>''])),
          (emit (Write h (encode (command @ [CHR 0x0D]))) st)\<lparr>script := es\<rparr>)"
proof -
  have "recv_loop 0 [] (Clock 0 # Received (text @ [CHR 0x0D, CHR 0x0D, CHR ''>'']) # es) =
      Some (Inr (text @ [CHR 0x0D, CHR 0x0D, CHR ''>'']), es)"
    by (simp add: recv_loop_read recv_loop_prompt TIMEOUT_def)
  with assms show ?thesis
    by (simp add: send_command_def answer_def emit_def Let_def)
qed

text \<open>The loop reads an exchange to its end, and \<open>send_command\<close> returns what the
  exchange is to give, with the request written and nothing else changed.\<close>

lemma recv_loop_ending:
  assumes "list_all (\<lambda>(t, chunk). t - t0 < TIMEOUT \<and> chunk \<noteq> []) reads"
    and "ending_ok t0 reads e"
  shows "recv_loop t0 [] (concat (map (\<lambda>(t, chunk). [Clock t, Received chunk]) reads) @
      ending_events e @ rest) =
    Some (case e of Failed t msg \<Rightarrow> Inl msg | _ \<Rightarrow> Inr (concat (map snd reads)), rest)"
proof -
  from assms(1) have all: "\<forall>(t, chunk)\<in>set reads. t - t0 < TIMEOUT \<and> chunk \<noteq> []"
    by (simp add: list_all_iff)
  have loop: "CHR ''>'' \<notin> set (concat (map snd reads)) \<Longrightarrow>
      recv_loop t0 [] (concat (map (\<lambda>(t, chunk). [Clock t, Received chunk]) reads) @ es) =
      recv_loop t0 (concat (map snd reads)) es" for es
    using recv_loop_reads [of reads t0 "[]" es] all by simp
  show ?thesis
  proof (cases e)
    case Prompt
    with assms(2) have ne: "reads \<noteq> []"
      and early: "CHR ''>'' \<notin> set (concat (map snd (butlast reads)))"
      and seen: "CHR ''>'' \<in> set (snd (last reads))"
      by simp_all
    obtain t chunk where l: "last reads = (t, chunk)" by (cases "last reads")
    from ne l have split: "reads = butlast reads @ [(t, chunk)]"
      by (metis append_butlast_last_id)
    have all': "\<forall>(t, chunk)\<in>set (butlast reads). t - t0 < TIMEOUT \<and> chunk \<noteq> []"
      using all by (auto dest: in_set_butlastD)
    from all ne l have tc: "t - t0 < TIMEOUT" "chunk \<noteq> []"
      using last_in_set [OF ne] by auto
    have "recv_loop t0 [] (concat (map (\<lambda>(t, chunk). [Clock t, Received chunk]) reads) @ rest) =
        recv_loop t0 [] (concat (map (\<lambda>(t, chunk). [Clock t, Received chunk]) (butlast reads)) @
          (Clock t # Received chunk # rest))"
      by (subst split) simp
    also have "\<dots> = recv_loop t0 (concat (map snd (butlast reads))) (Clock t # Received chunk # rest)"
      using recv_loop_reads [of "butlast reads" t0 "[]" "Clock t # Received chunk # rest"] all' early
      by simp
    also have "\<dots> = recv_loop t0 (concat (map snd (butlast reads)) @ chunk) rest"
      using early tc by (simp add: recv_loop_read)
    also have "concat (map snd (butlast reads)) @ chunk = concat (map snd reads)"
      by (subst (2) split) simp
    also have "recv_loop t0 (concat (map snd reads)) rest = Some (Inr (concat (map snd reads)), rest)"
    proof -
      have "CHR ''>'' \<in> set (concat (map snd reads))"
        using seen l ne by (subst split) simp
      then show ?thesis by (rule recv_loop_prompt)
    qed
    finally show ?thesis using Prompt by simp
  next
    case (Deadline t)
    with assms(2) loop [of "Clock t # rest"] show ?thesis
      by (simp add: recv_loop_deadline)
  next
    case (Closed t)
    with assms(2) loop [of "Clock t # Received [] # rest"] show ?thesis
      by (simp add: recv_loop_closed)
  next
    case (Failed t msg)
    with assms(2) loop [of "Clock t # Raised msg # rest"] show ?thesis
      by (simp add: recv_loop_raised)
  qed
qed

lemma send_command_exchange:
  assumes "socket st = Some h" and "script st = exchange_events x @ rest" and "exchange_ok x"
  shows "send_command dec st command =
    Some (result_of dec command x, st\<lparr>script := rest, trace := trace st @ [request h command]\<rparr>)"
proof (cases x)
  case (Send_raises msg)
  with assms show ?thesis
    by (simp add: send_command_def emit_def request_def Let_def)
next
  case (Exchange t0 reads e)
  with assms(3) have ok: "list_all (\<lambda>(t, chunk). t - t0 < TIMEOUT \<and> chunk \<noteq> []) reads"
    "ending_ok t0 reads e" by simp_all
  note loop = recv_loop_ending [OF ok, of rest]
  show ?thesis
  proof (cases e)
    case (Failed t msg)
    with assms(1,2) Exchange loop show ?thesis
      by (simp add: send_command_def emit_def request_def Let_def)
  next
    case Prompt
    with assms(1,2) Exchange loop show ?thesis
      by (simp add: send_command_def emit_def request_def Let_def)
  next
    case (Deadline t)
    with assms(1,2) Exchange loop show ?thesis
      by (simp add: send_command_def emit_def request_def Let_def)
  next
    case (Closed t)
    with assms(1,2) Exchange loop show ?thesis
      by (simp add: send_command_def emit_def request_def Let_def)
  qed
qed

subsection \<open>Time-outs\<close>

text \<open>
  When a read times out at the socket, \<open>recv\<close> raises; the \<open>except\<close> branch then returns
  the text of the exception and the bytes read so far (here \<open>41 0\<close>) are dropped.
\<close>

theorem socket_timeout_counterexample:
  "map_option fst (send_command id
      (idle\<lparr>socket := Some 7, is_connected := True, running := True,
            script := [Sent, Clock 0, Clock 0, Received ''41 0'', Clock 1, Raised ''timed out'']\<rparr>)
      ''010D'') = Some ''Error: timed out'' \<and>
   clean_response (''010D'' @ [CHR 0x0D]) ''41 0'' = ''41 0'' \<and>
   ''Error: timed out'' \<noteq> ''41 0''"
  by code_simp

text \<open>
  C3 (amended).  Take an exchange on a held socket in which \<open>send\<close> succeeds and the reads
  deliver chunks without the prompt, each before the deadline.  If the next test of the loop
  then finds the deadline passed, \<open>send_command\<close> returns the bytes read so far, decoded
  and normalised, as an ordinary string.  If instead the next read raises (as a read does
  when the socket's own time-out of the same length expires), \<open>send_command\<close> returns the
  string \<open>Error: \<close> followed by the text of the exception, and the bytes read so far
  are not returned.  In both cases the call returns a string and raises nothing.
\<close>

theorem send_command_timeout:
  assumes "socket st = Some h"
    and "script st = Sent # Clock t0 #
           concat (map (\<lambda>(t, chunk). [Clock t, Received chunk]) reads) @ tail"
    and "\<forall>(t, chunk)\<in>set reads. t - t0 < TIMEOUT \<and> chunk \<noteq> []"
    and "CHR ''>'' \<notin> set (concat (map snd reads))"
  shows
    "(\<forall>t rest. tail = Clock t # rest \<and> TIMEOUT \<le> t - t0 \<longrightarrow>
        send_command dec st command =
          Some (clean_response (command @ [CHR 0x0D]) (dec (concat (map snd reads))),
                (emit (Write h (encode (command @ [CHR 0x0D]))) st)\<lparr>script := rest\<rparr>)) \<and>
     (\<forall>t msg rest. tail = Clock t # Raised msg # rest \<and> t - t0 < TIMEOUT \<longrightarrow>
        send_command dec st command =
          Some (''Error: '' @ msg,
                (emit (Write h (encode (command @ [CHR 0x0D]))) st)\<lparr>script := rest\<rparr>))"
proof -
  have loop: "recv_loop t0 [] (concat (map (\<lambda>(t, chunk). [Clock t, Received chunk]) reads) @ es) =
      recv_loop t0 (concat (map snd reads)) es" for es
    using recv_loop_reads [of reads t0 "[]" es] assms(3,4) by simp
  show ?thesis
  proof (intro conjI allI impI; elim conjE)
    fix t rest assume "tail = Clock t # rest" and "TIMEOUT \<le> t - t0"
    then show "send_command dec st command =
        Some (clean_response (command @ [CHR 0x0D]) (dec (concat (map snd reads))),
              (emit (Write h (encode (command @ [CHR 0x0D]))) st)\<lparr>script := rest\<rparr>)"
      using assms(1,2) loop [of tail] recv_loop_deadline [of "concat (map snd reads)" t t0 rest] assms(4)
      by (simp add: send_command_def emit_def Let_def)
  next
    fix t msg rest assume "tail = Clock t # Raised msg # rest" and "t - t0 < TIMEOUT"
    then show "send_command dec st command =
        Some (''Error: '' @ msg,
              (emit (Write h (encode (command @ [CHR 0x0D]))) st)\<lparr>script := rest\<rparr>)"
      using assms(1,2) loop [of tail] recv_loop_raised [of "concat (map snd reads)" t t0 msg rest] assms(4)
      by (simp add: send_command_def emit_def Let_def)
  qed
qed


theorem send_command_timeout_witness:
  "send_command (\<lambda>b. b)
      \<lparr>socket = Some 7, is_connected = True, running = True, vehicle_profile = None,
       protocol_detected = None,
       script = [Sent, Clock 0, Clock 0, Received ''41 0'', Clock 1, Received ''D'', Clock 2],
       trace = []\<rparr> ''010D'' =
     Some (''41 0D'',
      \<lparr>socket = Some 7, is_connected = True, running = True, vehicle_profile = None,
       protocol_detected = None, script = [],
       trace = [Write 7 (''010D'' @ [CHR 0x0D])]\<rparr>) \<and>
   send_command (\<lambda>b. b)
      \<lparr>socket = Some 7, is_connected = True, running = True, vehicle_profile = None,
       protocol_detected = None,
       script = [Sent, Clock 0, Clock 0, Received ''41 0'', Clock 1, Raised ''timed out''],
       trace = []\<rparr> ''010D'' =
     Some (''Error: timed out'',
      \<lparr>socket = Some 7, is_connected = True, running = True, vehicle_profile = None,
       protocol_detected = None, script = [],
       trace = [Write 7 (''010D'' @ [CHR 0x0D])]\<rparr>)"
proof -
  let ?a = "\<lparr>socket = Some 7, is_connected = True, running = True, vehicle_profile = None,
       protocol_detected = None,
       script = [Sent, Clock 0, Clock 0, Received ''41 0'', Clock 1, Received ''D'', Clock 2],
       trace = []\<rparr>"
  let ?b = "\<lparr>socket = Some 7, is_connected = True, running = True, vehicle_profile = None,
       protocol_detected = None,
       script = [Sent, Clock 0, Clock 0, Received ''41 0'', Clock 1, Raised ''timed out''],
       trace = []\<rparr>"
  have c: "clean_response (''010D'' @ [CHR 0x0D]) ''41 0D'' = ''41 0D''"
    by code_simp
  have e: "encode (''010D'' @ [CHR 0x0D]) = ''010D'' @ [CHR 0x0D]"
    by code_simp
  have a1: "socket ?a = Some 7" and b1: "socket ?b = Some 7" by simp_all
  have a2: "script ?a = Sent # Clock 0 #
      concat (map (\<lambda>(t, chunk). [Clock t, Received chunk]) [(0, ''41 0''), (1, ''D'')]) @ [Clock 2]"
    by simp
  have a3: "\<forall>(t, chunk)\<in>set [(0, ''41 0''), (1::rat, ''D'')]. t - 0 < TIMEOUT \<and> chunk \<noteq> []"
    by (simp add: TIMEOUT_def)
  have a4: "CHR ''>'' \<notin> set (concat (map snd [(0::rat, ''41 0''), (1, ''D'')]))"
    by simp
  have b2: "script ?b = Sent # Clock 0 #
      concat (map (\<lambda>(t, chunk). [Clock t, Received chunk]) [(0, ''41 0'')]) @
      [Clock 1, Raised ''timed out'']"
    by simp
  have b3: "\<forall>(t, chunk)\<in>set [(0::rat, ''41 0'')]. t - 0 < TIMEOUT \<and> chunk \<noteq> []"
    by (simp add: TIMEOUT_def)
  have b4: "CHR ''>'' \<notin> set (concat (map snd [(0::rat, ''41 0'')]))"
    by simp
  have "send_command (\<lambda>b. b) ?a ''010D'' =
      Some (clean_response (''010D'' @ [CHR 0x0D]) (concat (map snd [(0::rat, ''41 0''), (1, ''D'')])),
            (emit (Write 7 (encode (''010D'' @ [CHR 0x0D]))) ?a)\<lparr>script := []\<rparr>)"
    using send_command_timeout [OF a1 a2 a3 a4, of "\<lambda>b. b" "''010D''", THEN conjunct1,
        rule_format, of 2 "[]"]
    by (simp add: TIMEOUT_def)
  moreover have "send_command (\<lambda>b. b) ?b ''010D'' =
      Some (''Error: '' @ ''timed out'',
            (emit (Write 7 (encode (''010D'' @ [CHR 0x0D]))) ?b)\<lparr>script := []\<rparr>)"
    using send_command_timeout [OF b1 b2 b3 b4, of "\<lambda>b. b" "''010D''", THEN conjunct2,
        rule_format, of 1 "''timed out''" "[]"]
    by (simp add: TIMEOUT_def)
  ultimately show ?thesis
    using c e by (simp add: emit_def)
qed

subsection \<open>Socket errors\<close>

lemma connect_failed_effect:
  "connect_failed st msg = (ok, st') \<Longrightarrow>
     \<not> ok \<and> socket st' = None \<and> \<not> is_connected st' \<and>
     trace st' = trace st @ Emit_connected False (''Connection error: '' @ msg) #
       (case socket st of None \<Rightarrow> [] | Some h \<Rightarrow> [Close h])"
  by (auto simp: connect_failed_def emit_def Let_def split: option.splits)

text \<open>
  An error of the socket during an exchange leaves the link marked as connected, with its
  socket held and not closed.
\<close>

theorem exchange_error_counterexample:
  "map_option fst (send_command id
      (idle\<lparr>socket := Some 7, is_connected := True, running := True,
            script := [Raised ''[Errno 32] Broken pipe'']\<rparr>) ''010D'') =
     Some ''Error: [Errno 32] Broken pipe'' \<and>
   map_option (is_connected \<circ> snd) (send_command id
      (idle\<lparr>socket := Some 7, is_connected := True, running := True,
            script := [Raised ''[Errno 32] Broken pipe'']\<rparr>) ''010D'') = Some True \<and>
   map_option (socket \<circ> snd) (send_command id
      (idle\<lparr>socket := Some 7, is_connected := True, running := True,
            script := [Raised ''[Errno 32] Broken pipe'']\<rparr>) ''010D'') = Some (Some 7) \<and>
   map_option (trace \<circ> snd) (send_command id
      (idle\<lparr>socket := Some 7, is_connected := True, running := True,
            script := [Raised ''[Errno 32] Broken pipe'']\<rparr>) ''010D'') =
     Some [Write 7 (''010D'' @ [CHR 0x0D])]"
  by code_simp

text \<open>
  C5 (amended).  An error of the socket while \<open>connect_obd\<close> makes or connects the socket
  clears \<open>is_connected\<close>, emits the failure with the text of the error, closes the socket
  that the object holds and drops it.  An error of the socket during a command exchange
  does none of this: \<open>send_command\<close> returns the string \<open>Error: \<close> with the text of the
  error, and no call of \<open>send_command\<close> changes \<open>socket\<close> or \<open>is_connected\<close> or closes a
  socket.
\<close>

theorem socket_errors:
  "(script st = Created h # Raised msg # es \<longrightarrow>
      (\<exists>st'. connect_obd dec st = Some (False, st') \<and> socket st' = None \<and> \<not> is_connected st' \<and>
         trace st' = trace st @
           [Emit_connected False (''Connection error: '' @ msg), Close h])) \<and>
   (script st = Raised msg # es \<longrightarrow>
      (\<exists>st'. connect_obd dec st = Some (False, st') \<and> socket st' = None \<and> \<not> is_connected st' \<and>
         trace st' = trace st @ Emit_connected False (''Connection error: '' @ msg) #
           (case socket st of None \<Rightarrow> [] | Some h0 \<Rightarrow> [Close h0]))) \<and>
   (socket st = Some h \<and> script st = Raised msg # es \<longrightarrow>
      send_command dec st command =
        Some (''Error: '' @ msg,
              (emit (Write h (encode (command @ [CHR 0x0D]))) st)\<lparr>script := es\<rparr>)) \<and>
   (\<forall>r st'. send_command dec st command = Some (r, st') \<longrightarrow>
      socket st' = socket st \<and> is_connected st' = is_connected st \<and>
      (\<forall>h0. Close h0 \<in> set (trace st') \<longrightarrow> Close h0 \<in> set (trace st)))"
proof -
  have a: "script st = Created h # Raised msg # es \<longrightarrow>
      (\<exists>st'. connect_obd dec st = Some (False, st') \<and> socket st' = None \<and> \<not> is_connected st' \<and>
         trace st' = trace st @
           [Emit_connected False (''Connection error: '' @ msg), Close h])"
  proof
    assume s: "script st = Created h # Raised msg # es"
    obtain ok st' where c: "connect_failed (st\<lparr>socket := Some h, script := es\<rparr>) msg = (ok, st')"
      by (cases "connect_failed (st\<lparr>socket := Some h, script := es\<rparr>) msg")
    from connect_failed_effect [OF c] c s
    show "\<exists>st'. connect_obd dec st = Some (False, st') \<and> socket st' = None \<and> \<not> is_connected st' \<and>
        trace st' = trace st @ [Emit_connected False (''Connection error: '' @ msg), Close h]"
      by (auto simp: connect_obd_def)
  qed
  have b: "script st = Raised msg # es \<longrightarrow>
      (\<exists>st'. connect_obd dec st = Some (False, st') \<and> socket st' = None \<and> \<not> is_connected st' \<and>
         trace st' = trace st @ Emit_connected False (''Connection error: '' @ msg) #
           (case socket st of None \<Rightarrow> [] | Some h0 \<Rightarrow> [Close h0]))"
  proof
    assume s: "script st = Raised msg # es"
    obtain ok st' where c: "connect_failed (st\<lparr>script := es\<rparr>) msg = (ok, st')"
      by (cases "connect_failed (st\<lparr>script := es\<rparr>) msg")
    from connect_failed_effect [OF c] c s
    show "\<exists>st'. connect_obd dec st = Some (False, st') \<and> socket st' = None \<and> \<not> is_connected st' \<and>
        trace st' = trace st @ Emit_connected False (''Connection error: '' @ msg) #
          (case socket st of None \<Rightarrow> [] | Some h0 \<Rightarrow> [Close h0])"
      by (auto simp: connect_obd_def)
  qed
  have c: "socket st = Some h \<and> script st = Raised msg # es \<longrightarrow>
      send_command dec st command =
        Some (''Error: '' @ msg,
              (emit (Write h (encode (command @ [CHR 0x0D]))) st)\<lparr>script := es\<rparr>)"
    by (simp add: send_command_def emit_def Let_def)
  have d: "\<forall>r st'. send_command dec st command = Some (r, st') \<longrightarrow>
      socket st' = socket st \<and> is_connected st' = is_connected st \<and>
      (\<forall>h0. Close h0 \<in> set (trace st') \<longrightarrow> Close h0 \<in> set (trace st))"
  proof (intro allI impI)
    fix r st' assume "send_command dec st command = Some (r, st')"
    from send_command_effect [OF this]
    show "socket st' = socket st \<and> is_connected st' = is_connected st \<and>
        (\<forall>h0. Close h0 \<in> set (trace st') \<longrightarrow> Close h0 \<in> set (trace st))"
      by (auto split: option.splits)
  qed
  from a b c d show ?thesis by (intro conjI)
qed

theorem socket_errors_witness:
  "(\<exists>st'. connect_obd (\<lambda>b. b)
        \<lparr>socket = None, is_connected = False, running = False, vehicle_profile = None,
         protocol_detected = None,
         script = [Created 3, Raised ''[Errno 111] Connection refused''], trace = []\<rparr> =
        Some (False, st') \<and> socket st' = None \<and> \<not> is_connected st' \<and>
      trace st' =
        [Emit_connected False ''Connection error: [Errno 111] Connection refused'', Close 3]) \<and>
   (\<exists>st'. connect_obd (\<lambda>b. b)
        \<lparr>socket = Some 9, is_connected = True, running = False, vehicle_profile = None,
         protocol_detected = None,
         script = [Raised ''[Errno 24] Too many open files''], trace = []\<rparr> =
        Some (False, st') \<and> socket st' = None \<and> \<not> is_connected st' \<and>
      trace st' =
        [Emit_connected False ''Connection error: [Errno 24] Too many open files'', Close 9]) \<and>
   send_command (\<lambda>b. b)
      \<lparr>socket = Some 7, is_connected = True, running = True, vehicle_profile = None,
       protocol_detected = None, script = [Raised ''[Errno 32] Broken pipe''], trace = []\<rparr>
      ''010D'' =
     Some (''Error: [Errno 32] Broken pipe'',
      \<lparr>socket = Some 7, is_connected = True, running = True, vehicle_profile = None,
       protocol_detected = None, script = [],
       trace = [Write 7 (encode (''010D'' @ [CHR 0x0D]))]\<rparr>)"
proof -
  let ?a = "\<lparr>socket = None, is_connected = False, running = False, vehicle_profile = None,
         protocol_detected = None,
         script = [Created 3, Raised ''[Errno 111] Connection refused''], trace = []\<rparr>"
  let ?b = "\<lparr>socket = Some 9, is_connected = True, running = False, vehicle_profile = None,
         protocol_detected = None,
         script = [Raised ''[Errno 24] Too many open files''], trace = []\<rparr>"
  let ?c = "\<lparr>socket = Some 7, is_connected = True, running = True, vehicle_profile = None,
       protocol_detected = None, script = [Raised ''[Errno 32] Broken pipe''], trace = []\<rparr>"
  have a: "script ?a = Created 3 # Raised ''[Errno 111] Connection refused'' # []"
    by simp
  have b: "script ?b = Raised ''[Errno 24] Too many open files'' # []"
    by simp
  have c: "socket ?c = Some 7 \<and> script ?c = Raised ''[Errno 32] Broken pipe'' # []"
    by simp
  note ta = socket_errors [of ?a 3 "''[Errno 111] Connection refused''" "[]" "\<lambda>b. b",
      THEN conjunct1, THEN mp, OF a]
  note tb = socket_errors [of ?b _ "''[Errno 24] Too many open files''" "[]" "\<lambda>b. b",
      THEN conjunct2, THEN conjunct1, THEN mp, OF b]
  note tc = socket_errors [of ?c 7 "''[Errno 32] Broken pipe''" "[]" "\<lambda>b. b" "''010D''",
      THEN conjunct2, THEN conjunct2, THEN conjunct1, THEN mp, OF c]
  from ta have "\<exists>st'. connect_obd (\<lambda>b. b) ?a = Some (False, st') \<and> socket st' = None \<and>
      \<not> is_connected st' \<and>
      trace st' =
        [Emit_connected False ''Connection error: [Errno 111] Connection refused'', Close 3]"
    by simp
  moreover from tb have "\<exists>st'. connect_obd (\<lambda>b. b) ?b = Some (False, st') \<and> socket st' = None \<and>
      \<not> is_connected st' \<and>
      trace st' =
        [Emit_connected False ''Connection error: [Errno 24] Too many open files'', Close 9]"
    by simp
  moreover from tc have "send_command (\<lambda>b. b) ?c ''010D'' =
     Some (''Error: [Errno 32] Broken pipe'',
      \<lparr>socket = Some 7, is_connected = True, running = True, vehicle_profile = None,
       protocol_detected = None, script = [],
       trace = [Write 7 (encode (''010D'' @ [CHR 0x0D]))]\<rparr>)"
    by (simp add: emit_def)
  ultimately show ?thesis by (intro conjI)
qed

subsection \<open>Operations on a link that is not connected\<close>

text \<open>
  \<open>send_command\<close> tests the socket only: with a socket held and the flag \<open>is_connected\<close>
  false (the state in which \<open>connect_obd\<close> itself sends its commands) it writes the command
  and returns the answer.
\<close>

theorem send_without_flag_counterexample:
  "map_option fst (send_command id
      (idle\<lparr>socket := Some 7, script := [Sent, Clock 0, Clock 0, Received ''OK>'']\<rparr>) ''ATZ'') =
     Some ''OK'' \<and>
   ''OK'' \<noteq> ''Not connected'' \<and>
   map_option (trace \<circ> snd) (send_command id
      (idle\<lparr>socket := Some 7, script := [Sent, Clock 0, Clock 0, Received ''OK>'']\<rparr>) ''ATZ'') =
     Some [Write 7 (''ATZ'' @ [CHR 0x0D])] \<and>
   is_connected (idle\<lparr>socket := Some 7,
      script := [Sent, Clock 0, Clock 0, Received ''OK>'']\<rparr>) = False"
  by code_simp

text \<open>
  C10 (amended).  When no socket is held, \<open>send_command\<close> returns the string
  \<open>Not connected\<close> and leaves the state as it is: nothing is written and nothing is read
  (it does not look at the flag \<open>is_connected\<close>).  When no socket is held or the flag is
  false, \<open>read_dtc\<close> returns the empty list and \<open>clear_dtc\<close> returns \<open>False\<close>, both without
  sending a command and without any other effect.  None of the three raises.
\<close>

theorem not_connected_operations:
  "(socket st = None \<longrightarrow> send_command dec st command = Some (''Not connected'', st)) \<and>
   (\<not> is_connected st \<or> socket st = None \<longrightarrow>
      read_dtc dec st = Some ([], st) \<and> clear_dtc dec st = Some (False, st))"
  by (simp add: send_command_not_connected read_dtc_def clear_dtc_def)

theorem not_connected_operations_witness:
  "send_command (\<lambda>b. b)
      \<lparr>socket = None, is_connected = True, running = False, vehicle_profile = None,
       protocol_detected = None, script = [Sent], trace = []\<rparr> ''ATZ'' =
     Some (''Not connected'',
      \<lparr>socket = None, is_connected = True, running = False, vehicle_profile = None,
       protocol_detected = None, script = [Sent], trace = []\<rparr>) \<and>
   read_dtc (\<lambda>b. b)
      \<lparr>socket = Some 7, is_connected = False, running = False, vehicle_profile = None,
       protocol_detected = None, script = [Sent], trace = []\<rparr> =
     Some ([],
      \<lparr>socket = Some 7, is_connected = False, running = False, vehicle_profile = None,
       protocol_detected = None, script = [Sent], trace = []\<rparr>) \<and>
   clear_dtc (\<lambda>b. b)
      \<lparr>socket = Some 7, is_connected = False, running = False, vehicle_profile = None,
       protocol_detected = None, script = [Sent], trace = []\<rparr> =
     Some (False,
      \<lparr>socket = Some 7, is_connected = False, running = False, vehicle_profile = None,
       protocol_detected = None, script = [Sent], trace = []\<rparr>)"
proof -
  let ?a = "\<lparr>socket = None, is_connected = True, running = False, vehicle_profile = None,
       protocol_detected = None, script = [Sent], trace = []\<rparr>"
  let ?b = "\<lparr>socket = Some 7, is_connected = False, running = False, vehicle_profile = None,
       protocol_detected = None, script = [Sent], trace = []\<rparr>"
  have a: "socket ?a = None" by simp
  have b: "\<not> is_connected ?b \<or> socket ?b = None" by simp
  note ta = not_connected_operations [of ?a "\<lambda>b. b" "''ATZ''", THEN conjunct1, THEN mp, OF a]
  note tb = not_connected_operations [of ?b "\<lambda>b. b", THEN conjunct2, THEN mp, OF b]
  from ta tb show ?thesis by (intro conjI) simp_all
qed

section \<open>Properties of the session initialiser\<close>

lemma logs_append: "logs (xs @ ys) = logs xs @ logs ys"
  by (simp add: logs_def List.map_filter_def)

lemma logs_requests: "logs (map (request h) cs) = []"
  by (induction cs) (simp_all add: logs_def request_def)

lemma logs_simps:
  "logs [] = []"
  "logs (request h c # tr) = logs tr"
  "logs (Emit_connected ok msg # tr) = msg # logs tr"
  by (simp_all add: logs_def request_def)

lemma logs_emitted:
  "logs (tr @ map (request h) cs @ [Emit_connected ok msg]) = logs tr @ [msg]"
  by (simp add: logs_append logs_requests logs_simps)

text \<open>A run of \<open>connect_obd\<close> on a script that is made of exchanges.\<close>

lemma profile_name_selected:
  assumes "vehicle_profile st = Some name" and "map_of VEHICLE_PROFILES name = Some prof"
  shows "selected_profile st = Some name"
proof -
  have "map_of VEHICLE_PROFILES [] = None" by code_simp
  with assms(2) have "name \<noteq> []" by auto
  with assms(1) show ?thesis by (simp add: selected_profile_def)
qed

lemma select_protocol_primary:
  assumes "socket st5 = Some h"
    and "vehicle_profile st5 = Some name" and "map_of VEHICLE_PROFILES name = Some prof"
    and "script st5 = exchange_events x6 @ exchange_events x8 @ rest"
    and "exchange_ok x6" and "exchange_ok x8"
    and "py_in ''OK'' (result_of dec (protocol_cmd prof) x6)"
  shows "select_protocol dec responses st5 =
    Some (True, st5\<lparr>is_connected := True, protocol_detected := Some (result_of dec ''ATDP'' x8),
      script := rest,
      trace := trace st5 @ [request h (protocol_cmd prof), request h ''ATDP'',
        Emit_connected True
          (py_join [CHR 0x0A] (responses @ [''Protocol: '' @ result_of dec ''ATDP'' x8]))]\<rparr>)"
proof -
  let ?st6 = "st5\<lparr>script := exchange_events x8 @ rest,
      trace := trace st5 @ [request h (protocol_cmd prof)]\<rparr>"
  have s6: "send_command dec st5 (protocol_cmd prof) =
      Some (result_of dec (protocol_cmd prof) x6, ?st6)"
    using assms(1,4,5) by (rule send_command_exchange)
  have s8: "send_command dec ?st6 ''ATDP'' =
      Some (result_of dec ''ATDP'' x8,
        ?st6\<lparr>script := rest, trace := trace ?st6 @ [request h ''ATDP'']\<rparr>)"
    using assms(1,6) by (intro send_command_exchange) simp_all
  show ?thesis
    using profile_name_selected [OF assms(2,3)] assms(3,7) s6 s8
    by (simp add: select_protocol_def connect_done_def emit_def)
qed

lemma select_protocol_fallback:
  assumes "socket st5 = Some h"
    and "vehicle_profile st5 = Some name" and "map_of VEHICLE_PROFILES name = Some prof"
    and "script st5 = exchange_events x6 @ exchange_events x7 @ exchange_events x8 @ rest"
    and "exchange_ok x6" and "exchange_ok x7" and "exchange_ok x8"
    and "\<not> py_in ''OK'' (result_of dec (protocol_cmd prof) x6)"
  shows "select_protocol dec responses st5 =
    Some (True, st5\<lparr>is_connected := True, protocol_detected := Some (result_of dec ''ATDP'' x8),
      script := rest,
      trace := trace st5 @ [request h (protocol_cmd prof), request h (fallback_cmd prof),
        request h ''ATDP'',
        Emit_connected True
          (py_join [CHR 0x0A] (responses @ [''Protocol: '' @ result_of dec ''ATDP'' x8]))]\<rparr>)"
proof -
  let ?st6 = "st5\<lparr>script := exchange_events x7 @ exchange_events x8 @ rest,
      trace := trace st5 @ [request h (protocol_cmd prof)]\<rparr>"
  let ?st7 = "?st6\<lparr>script := exchange_events x8 @ rest,
      trace := trace ?st6 @ [request h (fallback_cmd prof)]\<rparr>"
  have s6: "send_command dec st5 (protocol_cmd prof) =
      Some (result_of dec (protocol_cmd prof) x6, ?st6)"
    using assms(1,4,5) by (rule send_command_exchange)
  have s7: "send_command dec ?st6 (fallback_cmd prof) =
      Some (result_of dec (fallback_cmd prof) x7, ?st7)"
    using assms(1,6) by (intro send_command_exchange) simp_all
  have s8: "send_command dec ?st7 ''ATDP'' =
      Some (result_of dec ''ATDP'' x8,
        ?st7\<lparr>script := rest, trace := trace ?st7 @ [request h ''ATDP'']\<rparr>)"
    using assms(1,7) by (intro send_command_exchange) simp_all
  show ?thesis
    using profile_name_selected [OF assms(2,3)] assms(3,8) s6 s7 s8
    by (simp add: select_protocol_def connect_done_def emit_def)
qed

lemma select_protocol_automatic:
  assumes "socket st5 = Some h" and "selected_profile st5 = None"
    and "script st5 = exchange_events x6 @ exchange_events x8 @ rest"
    and "exchange_ok x6" and "exchange_ok x8"
  shows "select_protocol dec responses st5 =
    Some (True, st5\<lparr>is_connected := True, protocol_detected := Some (result_of dec ''ATDP'' x8),
      script := rest,
      trace := trace st5 @ [request h CMD_AUTO_PROTOCOL, request h ''ATDP'',
        Emit_connected True
          (py_join [CHR 0x0A] (responses @ [''Protocol: '' @ result_of dec ''ATDP'' x8]))]\<rparr>)"
proof -
  let ?st6 = "st5\<lparr>script := exchange_events x8 @ rest,
      trace := trace st5 @ [request h CMD_AUTO_PROTOCOL]\<rparr>"
  have s6: "send_command dec st5 CMD_AUTO_PROTOCOL =
      Some (result_of dec CMD_AUTO_PROTOCOL x6, ?st6)"
    using assms(1,3,4) by (rule send_command_exchange)
  have s8: "send_command dec ?st6 ''ATDP'' =
      Some (result_of dec ''ATDP'' x8,
        ?st6\<lparr>script := rest, trace := trace ?st6 @ [request h ''ATDP'']\<rparr>)"
    using assms(1,5) by (intro send_command_exchange) simp_all
  show ?thesis
    using assms(2) s6 s8
    by (simp add: select_protocol_def connect_done_def emit_def)
qed

text \<open>The set-up commands: five exchanges, whatever they return.\<close>

lemma initialise_setup:
  assumes "socket st0 = Some h"
    and "script st0 = exchange_events x1 @ exchange_events x2 @ exchange_events x3 @
          exchange_events x4 @ exchange_events x5 @ tail"
    and "exchange_ok x1" and "exchange_ok x2" and "exchange_ok x3" and "exchange_ok x4"
    and "exchange_ok x5"
  shows "initialise dec st0 =
    select_protocol dec
      [''Reset: '' @ result_of dec CMD_RESET x1, ''Version: '' @ result_of dec CMD_VERSION x2]
      (st0\<lparr>script := tail,
           trace := trace st0 @ map (request h)
             [CMD_RESET, CMD_VERSION, CMD_ECHO_OFF, CMD_HEADERS_OFF, CMD_LINEFEEDS_OFF]\<rparr>)"
proof -
  let ?st1 = "st0\<lparr>script := exchange_events x2 @ exchange_events x3 @
          exchange_events x4 @ exchange_events x5 @ tail,
      trace := trace st0 @ [request h CMD_RESET]\<rparr>"
  let ?st2 = "?st1\<lparr>script := exchange_events x3 @ exchange_events x4 @ exchange_events x5 @ tail,
      trace := trace ?st1 @ [request h CMD_VERSION]\<rparr>"
  let ?st3 = "?st2\<lparr>script := exchange_events x4 @ exchange_events x5 @ tail,
      trace := trace ?st2 @ [request h CMD_ECHO_OFF]\<rparr>"
  let ?st4 = "?st3\<lparr>script := exchange_events x5 @ tail,
      trace := trace ?st3 @ [request h CMD_HEADERS_OFF]\<rparr>"
  let ?st5 = "?st4\<lparr>script := tail, trace := trace ?st4 @ [request h CMD_LINEFEEDS_OFF]\<rparr>"
  have s1: "send_command dec st0 CMD_RESET = Some (result_of dec CMD_RESET x1, ?st1)"
    using assms(1,2,3) by (rule send_command_exchange)
  have s2: "send_command dec ?st1 CMD_VERSION = Some (result_of dec CMD_VERSION x2, ?st2)"
    using assms(1,4) by (intro send_command_exchange) simp_all
  have s3: "send_command dec ?st2 CMD_ECHO_OFF = Some (result_of dec CMD_ECHO_OFF x3, ?st3)"
    using assms(1,5) by (intro send_command_exchange) simp_all
  have s4: "send_command dec ?st3 CMD_HEADERS_OFF = Some (result_of dec CMD_HEADERS_OFF x4, ?st4)"
    using assms(1,6) by (intro send_command_exchange) simp_all
  have s5: "send_command dec ?st4 CMD_LINEFEEDS_OFF =
      Some (result_of dec CMD_LINEFEEDS_OFF x5, ?st5)"
    using assms(1,7) by (intro send_command_exchange) simp_all
  show ?thesis
    using s1 s2 s3 s4 s5 by (simp add: initialise_def)
qed

lemma connect_obd_connected:
  "script st = Created h # Connected # es \<Longrightarrow>
     connect_obd dec st = initialise dec (st\<lparr>socket := Some h, script := es\<rparr>)"
  by (simp add: connect_obd_def)

lemma connect_obd_setup:
  assumes "script st = Created h # Connected # exchange_events x1 @ exchange_events x2 @
      exchange_events x3 @ exchange_events x4 @ exchange_events x5 @ exchange_events x6 @ tail"
    and "list_all exchange_ok [x1, x2, x3, x4, x5, x6, x8]"
  shows "connect_obd dec st =
    select_protocol dec
      [''Reset: '' @ result_of dec CMD_RESET x1, ''Version: '' @ result_of dec CMD_VERSION x2]
      (st\<lparr>socket := Some h, script := exchange_events x6 @ tail,
          trace := trace st @ map (request h)
            [CMD_RESET, CMD_VERSION, CMD_ECHO_OFF, CMD_HEADERS_OFF, CMD_LINEFEEDS_OFF]\<rparr>)"
proof -
  from assms(2) have ok: "exchange_ok x1" "exchange_ok x2" "exchange_ok x3" "exchange_ok x4"
    "exchange_ok x5"
    by simp_all
  let ?st0 = "st\<lparr>socket := Some h, script := exchange_events x1 @ exchange_events x2 @
      exchange_events x3 @ exchange_events x4 @ exchange_events x5 @ exchange_events x6 @ tail\<rparr>"
  show ?thesis
    using connect_obd_connected [OF assms(1), of dec]
      initialise_setup [of ?st0 h x1 x2 x3 x4 x5 "exchange_events x6 @ tail" dec] ok
    by simp
qed

lemma connect_obd_primary:
  assumes "script st = Created h # Connected # exchange_events x1 @ exchange_events x2 @
      exchange_events x3 @ exchange_events x4 @ exchange_events x5 @ exchange_events x6 @ tail"
    and "list_all exchange_ok [x1, x2, x3, x4, x5, x6, x8]"
    and "vehicle_profile st = Some name" and "map_of VEHICLE_PROFILES name = Some prof"
    and "py_in ''OK'' (result_of dec (protocol_cmd prof) x6)"
    and "tail = exchange_events x8 @ rest"
  shows "connect_obd dec st =
          Some (True, st\<lparr>socket := Some h, is_connected := True,
            protocol_detected := Some (result_of dec ''ATDP'' x8), script := rest,
            trace := trace st @
              map (request h) [CMD_RESET, CMD_VERSION, CMD_ECHO_OFF, CMD_HEADERS_OFF,
                CMD_LINEFEEDS_OFF, protocol_cmd prof, ''ATDP''] @
              [Emit_connected True (py_join [CHR 0x0A]
                 [''Reset: '' @ result_of dec CMD_RESET x1,
                  ''Version: '' @ result_of dec CMD_VERSION x2,
                  ''Protocol: '' @ result_of dec ''ATDP'' x8])]\<rparr>)"
proof -
  let ?st5 = "st\<lparr>socket := Some h, script := exchange_events x6 @ tail,
      trace := trace st @ map (request h)
        [CMD_RESET, CMD_VERSION, CMD_ECHO_OFF, CMD_HEADERS_OFF, CMD_LINEFEEDS_OFF]\<rparr>"
  from assms(2) have ok: "exchange_ok x6" "exchange_ok x8" by simp_all
  have a: "socket ?st5 = Some h" "vehicle_profile ?st5 = Some name"
    "script ?st5 = exchange_events x6 @ exchange_events x8 @ rest"
    using assms(3,6) by simp_all
  from select_protocol_primary [OF a(1,2) assms(4) a(3) ok assms(5)]
    connect_obd_setup [OF assms(1,2), of dec]
  show ?thesis by simp
qed

lemma connect_obd_fallback:
  assumes "script st = Created h # Connected # exchange_events x1 @ exchange_events x2 @
      exchange_events x3 @ exchange_events x4 @ exchange_events x5 @ exchange_events x6 @ tail"
    and "list_all exchange_ok [x1, x2, x3, x4, x5, x6, x8]"
    and "vehicle_profile st = Some name" and "map_of VEHICLE_PROFILES name = Some prof"
    and "\<not> py_in ''OK'' (result_of dec (protocol_cmd prof) x6)" and "exchange_ok x7"
    and "tail = exchange_events x7 @ exchange_events x8 @ rest"
  shows "connect_obd dec st =
          Some (True, st\<lparr>socket := Some h, is_connected := True,
            protocol_detected := Some (result_of dec ''ATDP'' x8), script := rest,
            trace := trace st @
              map (request h) [CMD_RESET, CMD_VERSION, CMD_ECHO_OFF, CMD_HEADERS_OFF,
                CMD_LINEFEEDS_OFF, protocol_cmd prof, fallback_cmd prof, ''ATDP''] @
              [Emit_connected True (py_join [CHR 0x0A]
                 [''Reset: '' @ result_of dec CMD_RESET x1,
                  ''Version: '' @ result_of dec CMD_VERSION x2,
                  ''Protocol: '' @ result_of dec ''ATDP'' x8])]\<rparr>)"
proof -
  let ?st5 = "st\<lparr>socket := Some h, script := exchange_events x6 @ tail,
      trace := trace st @ map (request h)
        [CMD_RESET, CMD_VERSION, CMD_ECHO_OFF, CMD_HEADERS_OFF, CMD_LINEFEEDS_OFF]\<rparr>"
  from assms(2) have ok: "exchange_ok x6" "exchange_ok x8" by simp_all
  have a: "socket ?st5 = Some h" "vehicle_profile ?st5 = Some name"
    "script ?st5 = exchange_events x6 @ exchange_events x7 @ exchange_events x8 @ rest"
    using assms(3,7) by simp_all
  from select_protocol_fallback [OF a(1,2) assms(4) a(3) ok(1) assms(6) ok(2) assms(5)]
    connect_obd_setup [OF assms(1,2), of dec]
  show ?thesis by simp
qed

lemma connect_obd_automatic:
  assumes "script st = Created h # Connected # exchange_events x1 @ exchange_events x2 @
      exchange_events x3 @ exchange_events x4 @ exchange_events x5 @ exchange_events x6 @ tail"
    and "list_all exchange_ok [x1, x2, x3, x4, x5, x6, x8]"
    and "selected_profile st = None" and "tail = exchange_events x8 @ rest"
  shows "connect_obd dec st =
          Some (True, st\<lparr>socket := Some h, is_connected := True,
            protocol_detected := Some (result_of dec ''ATDP'' x8), script := rest,
            trace := trace st @
              map (request h) [CMD_RESET, CMD_VERSION, CMD_ECHO_OFF, CMD_HEADERS_OFF,
                CMD_LINEFEEDS_OFF, CMD_AUTO_PROTOCOL, ''ATDP''] @
              [Emit_connected True (py_join [CHR 0x0A]
                 [''Reset: '' @ result_of dec CMD_RESET x1,
                  ''Version: '' @ result_of dec CMD_VERSION x2,
                  ''Protocol: '' @ result_of dec ''ATDP'' x8])]\<rparr>)"
proof -
  let ?st5 = "st\<lparr>socket := Some h, script := exchange_events x6 @ tail,
      trace := trace st @ map (request h)
        [CMD_RESET, CMD_VERSION, CMD_ECHO_OFF, CMD_HEADERS_OFF, CMD_LINEFEEDS_OFF]\<rparr>"
  from assms(2) have ok: "exchange_ok x6" "exchange_ok x8" by simp_all
  have a: "socket ?st5 = Some h" "selected_profile ?st5 = None"
    "script ?st5 = exchange_events x6 @ exchange_events x8 @ rest"
    using assms(3,4) by (simp_all add: selected_profile_def)
  from select_protocol_automatic [OF a ok] connect_obd_setup [OF assms(1,2), of dec]
  show ?thesis by simp
qed

subsection \<open>The selection of the protocol\<close>

text \<open>
  C7.  Take a run of \<open>connect_obd\<close> in which the socket is made and connected and every
  exchange comes to an end, whatever each exchange returns.  With a profile of the table
  selected (the application selects no other name), the run depends on the response to the
  primary protocol command of the profile.  If that response contains \<open>OK\<close>, the commands
  written are the five set-up commands, the primary command and \<open>ATDP\<close>: the fallback
  command is not sent.  If it does not, they are the five set-up commands, the primary
  command, the fallback command of the profile, once, and \<open>ATDP\<close>, whatever the response to
  the fallback command is: two protocol commands and no more.  With no profile selected they
  are the five set-up commands, \<open>ATSP0\<close> and \<open>ATDP\<close>.  In all three cases nothing else is
  written, the run returns \<open>True\<close>, the response to \<open>ATDP\<close> is stored in
  \<open>protocol_detected\<close>, and the log that is emitted ends with the line \<open>Protocol: \<close> and
  that response.
\<close>

theorem protocol_selection:
  assumes "script st = Created h # Connected # exchange_events x1 @ exchange_events x2 @
      exchange_events x3 @ exchange_events x4 @ exchange_events x5 @ exchange_events x6 @ tail"
    and "list_all exchange_ok [x1, x2, x3, x4, x5, x6, x8]"
  shows
    "(\<forall>name prof.
        vehicle_profile st = Some name \<and> map_of VEHICLE_PROFILES name = Some prof \<and>
        py_in ''OK'' (result_of dec (protocol_cmd prof) x6) \<and> tail = exchange_events x8 @ rest \<longrightarrow>
        connect_obd dec st =
          Some (True, st\<lparr>socket := Some h, is_connected := True,
            protocol_detected := Some (result_of dec ''ATDP'' x8), script := rest,
            trace := trace st @
              map (request h) [CMD_RESET, CMD_VERSION, CMD_ECHO_OFF, CMD_HEADERS_OFF,
                CMD_LINEFEEDS_OFF, protocol_cmd prof, ''ATDP''] @
              [Emit_connected True (py_join [CHR 0x0A]
                 [''Reset: '' @ result_of dec CMD_RESET x1,
                  ''Version: '' @ result_of dec CMD_VERSION x2,
                  ''Protocol: '' @ result_of dec ''ATDP'' x8])]\<rparr>)) \<and>
     (\<forall>name prof.
        vehicle_profile st = Some name \<and> map_of VEHICLE_PROFILES name = Some prof \<and>
        \<not> py_in ''OK'' (result_of dec (protocol_cmd prof) x6) \<and> exchange_ok x7 \<and>
        tail = exchange_events x7 @ exchange_events x8 @ rest \<longrightarrow>
        connect_obd dec st =
          Some (True, st\<lparr>socket := Some h, is_connected := True,
            protocol_detected := Some (result_of dec ''ATDP'' x8), script := rest,
            trace := trace st @
              map (request h) [CMD_RESET, CMD_VERSION, CMD_ECHO_OFF, CMD_HEADERS_OFF,
                CMD_LINEFEEDS_OFF, protocol_cmd prof, fallback_cmd prof, ''ATDP''] @
              [Emit_connected True (py_join [CHR 0x0A]
                 [''Reset: '' @ result_of dec CMD_RESET x1,
                  ''Version: '' @ result_of dec CMD_VERSION x2,
                  ''Protocol: '' @ result_of dec ''ATDP'' x8])]\<rparr>)) \<and>
     (selected_profile st = None \<and> tail = exchange_events x8 @ rest \<longrightarrow>
        connect_obd dec st =
          Some (True, st\<lparr>socket := Some h, is_connected := True,
            protocol_detected := Some (result_of dec ''ATDP'' x8), script := rest,
            trace := trace st @
              map (request h) [CMD_RESET, CMD_VERSION, CMD_ECHO_OFF, CMD_HEADERS_OFF,
                CMD_LINEFEEDS_OFF, CMD_AUTO_PROTOCOL, ''ATDP''] @
              [Emit_connected True (py_join [CHR 0x0A]
                 [''Reset: '' @ result_of dec CMD_RESET x1,
                  ''Version: '' @ result_of dec CMD_VERSION x2,
                  ''Protocol: '' @ result_of dec ''ATDP'' x8])]\<rparr>))"
  using connect_obd_primary [OF assms] connect_obd_fallback [OF assms]
    connect_obd_automatic [OF assms]
  by blast

theorem protocol_selection_witness:
  "connect_obd id
     (idle\<lparr>vehicle_profile := Some ''Fiat 500 Series 1'',
           script := Created 3 # Connected # answer ''ELM327 v1.5'' @ answer ''ELM327 v1.5'' @
             answer ''OK'' @ answer ''OK'' @ answer ''OK'' @ answer ''?'' @ answer ''OK'' @
             answer ''ISO 9141-2''\<rparr>) =
   Some (True,
     idle\<lparr>socket := Some 3, is_connected := True, vehicle_profile := Some ''Fiat 500 Series 1'',
          protocol_detected := Some ''ISO 9141-2'',
          trace := map (request 3) [''ATZ'', ''ATI'', ''ATE0'', ''ATH0'', ''ATL0'', ''ATSP4'',
                     ''ATSP3'', ''ATDP''] @
            [Emit_connected True (''Reset: ELM327 v1.5'' @ [CHR 0x0A] @ ''Version: ELM327 v1.5'' @
               [CHR 0x0A] @ ''Protocol: ISO 9141-2'')]\<rparr>) \<and>
   connect_obd id
     (idle\<lparr>vehicle_profile := Some ''Toyota C-HR/Corolla'',
           script := Created 3 # Connected # answer ''ELM327 v1.5'' @ answer ''ELM327 v1.5'' @
             answer ''OK'' @ answer ''OK'' @ answer ''OK'' @ answer ''OK'' @
             answer ''ISO 15765-4''\<rparr>) =
   Some (True,
     idle\<lparr>socket := Some 3, is_connected := True, vehicle_profile := Some ''Toyota C-HR/Corolla'',
          protocol_detected := Some ''ISO 15765-4'',
          trace := map (request 3) [''ATZ'', ''ATI'', ''ATE0'', ''ATH0'', ''ATL0'', ''ATSP6'',
                     ''ATDP''] @
            [Emit_connected True (''Reset: ELM327 v1.5'' @ [CHR 0x0A] @ ''Version: ELM327 v1.5'' @
               [CHR 0x0A] @ ''Protocol: ISO 15765-4'')]\<rparr>) \<and>
   connect_obd id
     (idle\<lparr>script := Created 3 # Connected # answer ''ELM327 v1.5'' @ answer ''ELM327 v1.5'' @
             answer ''OK'' @ answer ''OK'' @ answer ''OK'' @ answer ''?'' @ answer ''AUTO''\<rparr>) =
   Some (True,
     idle\<lparr>socket := Some 3, is_connected := True, protocol_detected := Some ''AUTO'',
          trace := map (request 3) [''ATZ'', ''ATI'', ''ATE0'', ''ATH0'', ''ATL0'', ''ATSP0'',
                     ''ATDP''] @
            [Emit_connected True (''Reset: ELM327 v1.5'' @ [CHR 0x0A] @ ''Version: ELM327 v1.5'' @
               [CHR 0x0A] @ ''Protocol: AUTO'')]\<rparr>)"
proof -
  let ?x = "\<lambda>body. Exchange 0 [(0, body @ [CHR 0x0D, CHR 0x0D, CHR ''>''])] Prompt"
  let ?fiat = "\<lparr>protocol_cmd = CMD_KWP2000, fallback_cmd = CMD_ISO9141,
       specific_pids = [(''Turbo Pressure'', PID_FIAT_TURBO_PRESSURE),
                        (''Clutch Status'', PID_FIAT_CLUTCH_STATUS)]\<rparr>"
  let ?toyota = "\<lparr>protocol_cmd = CMD_CAN_11BIT_500K, fallback_cmd = CMD_AUTO_PROTOCOL,
       specific_pids = [(''Fuel Consumption'', PID_TOYOTA_FUEL_CONSUMPTION),
                        (''Hybrid Battery'', PID_TOYOTA_HYBRID_BATTERY)]\<rparr>"
  let ?a = "idle\<lparr>vehicle_profile := Some ''Fiat 500 Series 1'',
           script := Created 3 # Connected # answer ''ELM327 v1.5'' @ answer ''ELM327 v1.5'' @
             answer ''OK'' @ answer ''OK'' @ answer ''OK'' @ answer ''?'' @ answer ''OK'' @
             answer ''ISO 9141-2''\<rparr>"
  let ?b = "idle\<lparr>vehicle_profile := Some ''Toyota C-HR/Corolla'',
           script := Created 3 # Connected # answer ''ELM327 v1.5'' @ answer ''ELM327 v1.5'' @
             answer ''OK'' @ answer ''OK'' @ answer ''OK'' @ answer ''OK'' @
             answer ''ISO 15765-4''\<rparr>"
  let ?c = "idle\<lparr>script := Created 3 # Connected # answer ''ELM327 v1.5'' @
             answer ''ELM327 v1.5'' @ answer ''OK'' @ answer ''OK'' @ answer ''OK'' @ answer ''?'' @
             answer ''AUTO''\<rparr>"
  have ev: "exchange_events (?x body) = answer body" for body
    by (simp add: answer_def)
  have ok: "exchange_ok (?x body)" for body
    by (simp add: TIMEOUT_def)
  have sa: "script ?a = Created 3 # Connected # exchange_events (?x ''ELM327 v1.5'') @
      exchange_events (?x ''ELM327 v1.5'') @ exchange_events (?x ''OK'') @
      exchange_events (?x ''OK'') @ exchange_events (?x ''OK'') @ exchange_events (?x ''?'') @
      (exchange_events (?x ''OK'') @ exchange_events (?x ''ISO 9141-2'') @ [])"
    by (simp only: ev) simp
  have sb: "script ?b = Created 3 # Connected # exchange_events (?x ''ELM327 v1.5'') @
      exchange_events (?x ''ELM327 v1.5'') @ exchange_events (?x ''OK'') @
      exchange_events (?x ''OK'') @ exchange_events (?x ''OK'') @ exchange_events (?x ''OK'') @
      (exchange_events (?x ''ISO 15765-4'') @ [])"
    by (simp only: ev) simp
  have sc: "script ?c = Created 3 # Connected # exchange_events (?x ''ELM327 v1.5'') @
      exchange_events (?x ''ELM327 v1.5'') @ exchange_events (?x ''OK'') @
      exchange_events (?x ''OK'') @ exchange_events (?x ''OK'') @ exchange_events (?x ''?'') @
      (exchange_events (?x ''AUTO'') @ [])"
    by (simp only: ev) simp
  have oka: "list_all exchange_ok [?x ''ELM327 v1.5'', ?x ''ELM327 v1.5'', ?x ''OK'', ?x ''OK'',
      ?x ''OK'', ?x ''?'', ?x ''ISO 9141-2'']"
    and okb: "list_all exchange_ok [?x ''ELM327 v1.5'', ?x ''ELM327 v1.5'', ?x ''OK'', ?x ''OK'',
      ?x ''OK'', ?x ''OK'', ?x ''ISO 15765-4'']"
    and okc: "list_all exchange_ok [?x ''ELM327 v1.5'', ?x ''ELM327 v1.5'', ?x ''OK'', ?x ''OK'',
      ?x ''OK'', ?x ''?'', ?x ''AUTO'']"
    by (simp_all add: TIMEOUT_def)
  have r: "result_of id CMD_RESET (?x ''ELM327 v1.5'') = ''ELM327 v1.5''"
    "result_of id CMD_VERSION (?x ''ELM327 v1.5'') = ''ELM327 v1.5''"
    "result_of id ''ATDP'' (?x ''ISO 9141-2'') = ''ISO 9141-2''"
    "result_of id ''ATDP'' (?x ''ISO 15765-4'') = ''ISO 15765-4''"
    "result_of id ''ATDP'' (?x ''AUTO'') = ''AUTO''"
    by code_simp+
  have pa: "vehicle_profile ?a = Some ''Fiat 500 Series 1'' \<and>
      map_of VEHICLE_PROFILES ''Fiat 500 Series 1'' = Some ?fiat \<and>
      \<not> py_in ''OK'' (result_of id (protocol_cmd ?fiat) (?x ''?'')) \<and> exchange_ok (?x ''OK'') \<and>
      exchange_events (?x ''OK'') @ exchange_events (?x ''ISO 9141-2'') @ [] =
        exchange_events (?x ''OK'') @ exchange_events (?x ''ISO 9141-2'') @ []"
  proof (intro conjI)
    show "\<not> py_in ''OK'' (result_of id (protocol_cmd ?fiat) (?x ''?''))" by code_simp
    show "map_of VEHICLE_PROFILES ''Fiat 500 Series 1'' = Some ?fiat"
      by (simp add: VEHICLE_PROFILES_def)
  qed (simp_all add: TIMEOUT_def)
  have pb: "vehicle_profile ?b = Some ''Toyota C-HR/Corolla'' \<and>
      map_of VEHICLE_PROFILES ''Toyota C-HR/Corolla'' = Some ?toyota \<and>
      py_in ''OK'' (result_of id (protocol_cmd ?toyota) (?x ''OK'')) \<and>
      exchange_events (?x ''ISO 15765-4'') @ [] = exchange_events (?x ''ISO 15765-4'') @ []"
  proof (intro conjI)
    show "py_in ''OK'' (result_of id (protocol_cmd ?toyota) (?x ''OK''))" by code_simp
    show "map_of VEHICLE_PROFILES ''Toyota C-HR/Corolla'' = Some ?toyota"
      by (simp add: VEHICLE_PROFILES_def)
  qed simp_all
  have pc: "selected_profile ?c = None \<and>
      exchange_events (?x ''AUTO'') @ [] = exchange_events (?x ''AUTO'') @ []"
    by (simp add: selected_profile_def idle_def)
  note ta = protocol_selection [OF sa oka, of id, THEN conjunct2, THEN conjunct1, rule_format, OF pa, unfolded r]
  note tb = protocol_selection [OF sb okb, of id, THEN conjunct1, rule_format, OF pb, unfolded r]
  note tc = protocol_selection [OF sc okc, of id, THEN conjunct2, THEN conjunct2, rule_format, OF pc, unfolded r]
  have a: "connect_obd id ?a = Some (True,
     idle\<lparr>socket := Some 3, is_connected := True, vehicle_profile := Some ''Fiat 500 Series 1'',
          protocol_detected := Some ''ISO 9141-2'',
          trace := map (request 3) [''ATZ'', ''ATI'', ''ATE0'', ''ATH0'', ''ATL0'', ''ATSP4'',
                     ''ATSP3'', ''ATDP''] @
            [Emit_connected True (''Reset: ELM327 v1.5'' @ [CHR 0x0A] @ ''Version: ELM327 v1.5'' @
               [CHR 0x0A] @ ''Protocol: ISO 9141-2'')]\<rparr>)"
    using ta by (simp add: idle_def CMD_RESET_def CMD_VERSION_def CMD_ECHO_OFF_def
        CMD_HEADERS_OFF_def CMD_LINEFEEDS_OFF_def CMD_KWP2000_def CMD_ISO9141_def)
  have b: "connect_obd id ?b = Some (True,
     idle\<lparr>socket := Some 3, is_connected := True, vehicle_profile := Some ''Toyota C-HR/Corolla'',
          protocol_detected := Some ''ISO 15765-4'',
          trace := map (request 3) [''ATZ'', ''ATI'', ''ATE0'', ''ATH0'', ''ATL0'', ''ATSP6'',
                     ''ATDP''] @
            [Emit_connected True (''Reset: ELM327 v1.5'' @ [CHR 0x0A] @ ''Version: ELM327 v1.5'' @
               [CHR 0x0A] @ ''Protocol: ISO 15765-4'')]\<rparr>)"
    using tb by (simp add: idle_def CMD_RESET_def CMD_VERSION_def CMD_ECHO_OFF_def
        CMD_HEADERS_OFF_def CMD_LINEFEEDS_OFF_def CMD_CAN_11BIT_500K_def)
  have c: "connect_obd id ?c = Some (True,
     idle\<lparr>socket := Some 3, is_connected := True, protocol_detected := Some ''AUTO'',
          trace := map (request 3) [''ATZ'', ''ATI'', ''ATE0'', ''ATH0'', ''ATL0'', ''ATSP0'',
                     ''ATDP''] @
            [Emit_connected True (''Reset: ELM327 v1.5'' @ [CHR 0x0A] @ ''Version: ELM327 v1.5'' @
               [CHR 0x0A] @ ''Protocol: AUTO'')]\<rparr>)"
    using tc by (simp add: idle_def CMD_RESET_def CMD_VERSION_def CMD_ECHO_OFF_def
        CMD_HEADERS_OFF_def CMD_LINEFEEDS_OFF_def CMD_AUTO_PROTOCOL_def)
  from a b c show ?thesis by (intro conjI)
qed

subsection \<open>The log\<close>

text \<open>
  The log of a successful initialisation has three lines.  The responses to the commands
  that switch off echo, headers and line feeds, and the responses to the two protocol
  commands, are not in it.
\<close>

theorem setup_log_counterexample:
  "map_option fst (connect_obd id
       (idle\<lparr>vehicle_profile := Some ''Fiat 500 Series 1'',
             script := Created 3 # Connected # answer ''ELM327 v1.5'' @ answer ''ELM327 v1.4b'' @
               answer ''E0 DONE'' @ answer ''H0 DONE'' @ answer ''L0 DONE'' @ answer ''?'' @
               answer ''OK'' @ answer ''ISO 9141-2''\<rparr>)) = Some True \<and>
   map_option (logs \<circ> trace \<circ> snd) (connect_obd id
       (idle\<lparr>vehicle_profile := Some ''Fiat 500 Series 1'',
             script := Created 3 # Connected # answer ''ELM327 v1.5'' @ answer ''ELM327 v1.4b'' @
               answer ''E0 DONE'' @ answer ''H0 DONE'' @ answer ''L0 DONE'' @ answer ''?'' @
               answer ''OK'' @ answer ''ISO 9141-2''\<rparr>)) =
     Some [''Reset: ELM327 v1.5'' @ [CHR 0x0A] @ ''Version: ELM327 v1.4b'' @ [CHR 0x0A] @
           ''Protocol: ISO 9141-2''] \<and>
   \<not> py_in ''E0 DONE'' (''Reset: ELM327 v1.5'' @ [CHR 0x0A] @ ''Version: ELM327 v1.4b'' @
      [CHR 0x0A] @ ''Protocol: ISO 9141-2'') \<and>
   \<not> py_in ''H0 DONE'' (''Reset: ELM327 v1.5'' @ [CHR 0x0A] @ ''Version: ELM327 v1.4b'' @
      [CHR 0x0A] @ ''Protocol: ISO 9141-2'') \<and>
   \<not> py_in ''L0 DONE'' (''Reset: ELM327 v1.5'' @ [CHR 0x0A] @ ''Version: ELM327 v1.4b'' @
      [CHR 0x0A] @ ''Protocol: ISO 9141-2'') \<and>
   \<not> py_in ''?'' (''Reset: ELM327 v1.5'' @ [CHR 0x0A] @ ''Version: ELM327 v1.4b'' @
      [CHR 0x0A] @ ''Protocol: ISO 9141-2'') \<and>
   \<not> py_in ''OK'' (''Reset: ELM327 v1.5'' @ [CHR 0x0A] @ ''Version: ELM327 v1.4b'' @
      [CHR 0x0A] @ ''Protocol: ISO 9141-2'')"
  by code_simp

text \<open>
  C4 (amended).  Take a run of \<open>connect_obd\<close> in which the socket is made and connected
  and every exchange comes to an end, whatever each exchange returns: a response of the
  adapter, nothing before the deadline, or an error of the socket.  The five set-up commands
  (reset, version, echo off, headers off, line feeds off) are written in this order, then the
  protocol commands \<open>cmds\<close> (the primary command of the profile, followed by its fallback
  command when the primary response has no \<open>OK\<close>; \<open>ATSP0\<close> without a profile), then
  \<open>ATDP\<close>.  The run emits one log, of exactly three lines: \<open>Reset: \<close> with the response to
  the reset command, \<open>Version: \<close> with the response to the version command, and
  \<open>Protocol: \<close> with the response to \<open>ATDP\<close>.  The responses to the commands that switch
  off echo, headers and line feeds, and to the primary and the fallback protocol command,
  are in no line of the log.
\<close>

theorem initialisation_log:
  assumes "script st = Created h # Connected # exchange_events x1 @ exchange_events x2 @
      exchange_events x3 @ exchange_events x4 @ exchange_events x5 @ exchange_events x6 @ tail"
    and "list_all exchange_ok [x1, x2, x3, x4, x5, x6, x8]"
    and "(vehicle_profile st = Some name \<and> map_of VEHICLE_PROFILES name = Some prof \<and>
          py_in ''OK'' (result_of dec (protocol_cmd prof) x6) \<and>
          tail = exchange_events x8 @ rest \<and> cmds = [protocol_cmd prof]) \<or>
         (vehicle_profile st = Some name \<and> map_of VEHICLE_PROFILES name = Some prof \<and>
          \<not> py_in ''OK'' (result_of dec (protocol_cmd prof) x6) \<and> exchange_ok x7 \<and>
          tail = exchange_events x7 @ exchange_events x8 @ rest \<and>
          cmds = [protocol_cmd prof, fallback_cmd prof]) \<or>
         (selected_profile st = None \<and> tail = exchange_events x8 @ rest \<and>
          cmds = [CMD_AUTO_PROTOCOL])"
  shows
    "connect_obd dec st =
       Some (True, st\<lparr>socket := Some h, is_connected := True,
         protocol_detected := Some (result_of dec ''ATDP'' x8), script := rest,
         trace := trace st @
           map (request h)
             ([CMD_RESET, CMD_VERSION, CMD_ECHO_OFF, CMD_HEADERS_OFF, CMD_LINEFEEDS_OFF] @
              cmds @ [''ATDP'']) @
           [Emit_connected True
              (''Reset: '' @ result_of dec CMD_RESET x1 @ [CHR 0x0A] @
               ''Version: '' @ result_of dec CMD_VERSION x2 @ [CHR 0x0A] @
               ''Protocol: '' @ result_of dec ''ATDP'' x8)]\<rparr>) \<and>
     map_option (\<lambda>r. logs (trace (snd r))) (connect_obd dec st) =
       Some (logs (trace st) @
         [''Reset: '' @ result_of dec CMD_RESET x1 @ [CHR 0x0A] @
          ''Version: '' @ result_of dec CMD_VERSION x2 @ [CHR 0x0A] @
          ''Protocol: '' @ result_of dec ''ATDP'' x8])"
proof -
  have run: "connect_obd dec st =
       Some (True, st\<lparr>socket := Some h, is_connected := True,
         protocol_detected := Some (result_of dec ''ATDP'' x8), script := rest,
         trace := trace st @
           map (request h)
             ([CMD_RESET, CMD_VERSION, CMD_ECHO_OFF, CMD_HEADERS_OFF, CMD_LINEFEEDS_OFF] @
              cmds @ [''ATDP'']) @
           [Emit_connected True
              (''Reset: '' @ result_of dec CMD_RESET x1 @ [CHR 0x0A] @
               ''Version: '' @ result_of dec CMD_VERSION x2 @ [CHR 0x0A] @
               ''Protocol: '' @ result_of dec ''ATDP'' x8)]\<rparr>)"
    using assms(3)
  proof (elim disjE conjE)
    assume "vehicle_profile st = Some name" "map_of VEHICLE_PROFILES name = Some prof"
      "py_in ''OK'' (result_of dec (protocol_cmd prof) x6)" "tail = exchange_events x8 @ rest"
      "cmds = [protocol_cmd prof]"
    with connect_obd_primary [OF assms(1,2), of name prof dec rest] show ?thesis by simp
  next
    assume "vehicle_profile st = Some name" "map_of VEHICLE_PROFILES name = Some prof"
      "\<not> py_in ''OK'' (result_of dec (protocol_cmd prof) x6)" "exchange_ok x7"
      "tail = exchange_events x7 @ exchange_events x8 @ rest"
      "cmds = [protocol_cmd prof, fallback_cmd prof]"
    with connect_obd_fallback [OF assms(1,2), of name prof dec x7 rest] show ?thesis by simp
  next
    assume "selected_profile st = None" "tail = exchange_events x8 @ rest"
      "cmds = [CMD_AUTO_PROTOCOL]"
    with connect_obd_automatic [OF assms(1,2), of rest dec] show ?thesis by simp
  qed
  have "logs (trace st @
           map (request h)
             ([CMD_RESET, CMD_VERSION, CMD_ECHO_OFF, CMD_HEADERS_OFF, CMD_LINEFEEDS_OFF] @
              cmds @ [''ATDP'']) @ [Emit_connected True msg]) = logs (trace st) @ [msg]" for msg
    by (rule logs_emitted)
  with run show ?thesis by simp
qed
theorem initialisation_log_witness:
  "connect_obd id
     (idle\<lparr>vehicle_profile := Some ''Fiat 500 Series 1'',
           script := Created 3 # Connected # answer ''ELM327 v1.5'' @ answer ''ELM327 v1.4b'' @
             [Raised ''Broken pipe''] @ [Sent, Clock 0, Clock 2] @ answer ''L0 DONE'' @
             answer ''?'' @ answer ''OK'' @ answer ''ISO 9141-2''\<rparr>) =
   Some (True,
     idle\<lparr>socket := Some 3, is_connected := True, vehicle_profile := Some ''Fiat 500 Series 1'',
          protocol_detected := Some ''ISO 9141-2'',
          trace := map (request 3) [''ATZ'', ''ATI'', ''ATE0'', ''ATH0'', ''ATL0'', ''ATSP4'',
                     ''ATSP3'', ''ATDP''] @
            [Emit_connected True (''Reset: ELM327 v1.5'' @ [CHR 0x0A] @ ''Version: ELM327 v1.4b'' @
               [CHR 0x0A] @ ''Protocol: ISO 9141-2'')]\<rparr>) \<and>
   map_option (\<lambda>r. logs (trace (snd r)))
     (connect_obd id
       (idle\<lparr>vehicle_profile := Some ''Fiat 500 Series 1'',
             script := Created 3 # Connected # answer ''ELM327 v1.5'' @ answer ''ELM327 v1.4b'' @
               [Raised ''Broken pipe''] @ [Sent, Clock 0, Clock 2] @ answer ''L0 DONE'' @
               answer ''?'' @ answer ''OK'' @ answer ''ISO 9141-2''\<rparr>)) =
   Some [''Reset: ELM327 v1.5'' @ [CHR 0x0A] @ ''Version: ELM327 v1.4b'' @ [CHR 0x0A] @
         ''Protocol: ISO 9141-2'']"
proof -
  let ?x = "\<lambda>body. Exchange 0 [(0, body @ [CHR 0x0D, CHR 0x0D, CHR ''>''])] Prompt"
  let ?fiat = "\<lparr>protocol_cmd = CMD_KWP2000, fallback_cmd = CMD_ISO9141,
       specific_pids = [(''Turbo Pressure'', PID_FIAT_TURBO_PRESSURE),
                        (''Clutch Status'', PID_FIAT_CLUTCH_STATUS)]\<rparr>"
  let ?a = "idle\<lparr>vehicle_profile := Some ''Fiat 500 Series 1'',
           script := Created 3 # Connected # answer ''ELM327 v1.5'' @ answer ''ELM327 v1.4b'' @
             [Raised ''Broken pipe''] @ [Sent, Clock 0, Clock 2] @ answer ''L0 DONE'' @
             answer ''?'' @ answer ''OK'' @ answer ''ISO 9141-2''\<rparr>"
  have ev: "exchange_events (?x body) = answer body" for body
    by (simp add: answer_def)
  have ev3: "exchange_events (Send_raises ''Broken pipe'') = [Raised ''Broken pipe'']"
    and ev4: "exchange_events (Exchange 0 [] (Deadline 2)) = [Sent, Clock 0, Clock 2]"
    by simp_all
  have sa: "script ?a = Created 3 # Connected # exchange_events (?x ''ELM327 v1.5'') @
      exchange_events (?x ''ELM327 v1.4b'') @ exchange_events (Send_raises ''Broken pipe'') @
      exchange_events (Exchange 0 [] (Deadline 2)) @ exchange_events (?x ''L0 DONE'') @
      exchange_events (?x ''?'') @
      (exchange_events (?x ''OK'') @ exchange_events (?x ''ISO 9141-2'') @ [])"
    by (simp only: ev ev3 ev4) simp
  have oka: "list_all exchange_ok [?x ''ELM327 v1.5'', ?x ''ELM327 v1.4b'',
      Send_raises ''Broken pipe'', Exchange 0 [] (Deadline 2), ?x ''L0 DONE'', ?x ''?'',
      ?x ''ISO 9141-2'']"
    by (simp add: TIMEOUT_def)
  have r: "result_of id CMD_RESET (?x ''ELM327 v1.5'') = ''ELM327 v1.5''"
    "result_of id CMD_VERSION (?x ''ELM327 v1.4b'') = ''ELM327 v1.4b''"
    "result_of id ''ATDP'' (?x ''ISO 9141-2'') = ''ISO 9141-2''"
    by code_simp+
  have pa: "(vehicle_profile ?a = Some ''Fiat 500 Series 1'' \<and>
      map_of VEHICLE_PROFILES ''Fiat 500 Series 1'' = Some ?fiat \<and>
      py_in ''OK'' (result_of id (protocol_cmd ?fiat) (?x ''?'')) \<and>
      exchange_events (?x ''OK'') @ exchange_events (?x ''ISO 9141-2'') @ [] =
        exchange_events (?x ''ISO 9141-2'') @ [] \<and>
      [CMD_KWP2000, CMD_ISO9141] = [protocol_cmd ?fiat]) \<or>
     (vehicle_profile ?a = Some ''Fiat 500 Series 1'' \<and>
      map_of VEHICLE_PROFILES ''Fiat 500 Series 1'' = Some ?fiat \<and>
      \<not> py_in ''OK'' (result_of id (protocol_cmd ?fiat) (?x ''?'')) \<and> exchange_ok (?x ''OK'') \<and>
      exchange_events (?x ''OK'') @ exchange_events (?x ''ISO 9141-2'') @ [] =
        exchange_events (?x ''OK'') @ exchange_events (?x ''ISO 9141-2'') @ [] \<and>
      [CMD_KWP2000, CMD_ISO9141] = [protocol_cmd ?fiat, fallback_cmd ?fiat]) \<or>
     (selected_profile ?a = None \<and>
      exchange_events (?x ''OK'') @ exchange_events (?x ''ISO 9141-2'') @ [] =
        exchange_events (?x ''ISO 9141-2'') @ [] \<and>
      [CMD_KWP2000, CMD_ISO9141] = [CMD_AUTO_PROTOCOL])"
  proof (rule disjI2, rule disjI1, intro conjI)
    show "\<not> py_in ''OK'' (result_of id (protocol_cmd ?fiat) (?x ''?''))" by code_simp
    show "map_of VEHICLE_PROFILES ''Fiat 500 Series 1'' = Some ?fiat"
      by (simp add: VEHICLE_PROFILES_def)
  qed (simp_all add: TIMEOUT_def)
  note t = initialisation_log [OF sa oka pa, unfolded r]
  have a: "connect_obd id ?a = Some (True,
     idle\<lparr>socket := Some 3, is_connected := True, vehicle_profile := Some ''Fiat 500 Series 1'',
          protocol_detected := Some ''ISO 9141-2'',
          trace := map (request 3) [''ATZ'', ''ATI'', ''ATE0'', ''ATH0'', ''ATL0'', ''ATSP4'',
                     ''ATSP3'', ''ATDP''] @
            [Emit_connected True (''Reset: ELM327 v1.5'' @ [CHR 0x0A] @ ''Version: ELM327 v1.4b'' @
               [CHR 0x0A] @ ''Protocol: ISO 9141-2'')]\<rparr>)"
    using t [THEN conjunct1]
    by (simp add: idle_def CMD_RESET_def CMD_VERSION_def CMD_ECHO_OFF_def
        CMD_HEADERS_OFF_def CMD_LINEFEEDS_OFF_def CMD_KWP2000_def CMD_ISO9141_def)
  have b: "map_option (\<lambda>r. logs (trace (snd r))) (connect_obd id ?a) =
      Some [''Reset: ELM327 v1.5'' @ [CHR 0x0A] @ ''Version: ELM327 v1.4b'' @ [CHR 0x0A] @
         ''Protocol: ISO 9141-2'']"
    using t [THEN conjunct2] by (simp add: idle_def logs_simps)
  from a b show ?thesis by (rule conjI)
qed

section \<open>Properties of the polling loop\<close>

lemma dict_set_fresh: "k \<notin> fst ` set d \<Longrightarrow> dict_set k v d = d @ [(k, v)]"
  by (induction d) auto

lemma snapshot_for_keys:
  "length rs = length metrics \<Longrightarrow> map fst (snapshot_for metrics rs) = map fst metrics"
  by (induction metrics rs rule: list_induct2') (auto simp: snapshot_for_def)

lemma profile_keys_distinct:
  assumes "map_of VEHICLE_PROFILES name = Some prof"
  shows "distinct (map fst standard_metrics @ map (\<lambda>p. metric_key (fst p)) (specific_pids prof))"
proof -
  have all: "list_all (\<lambda>(n, p). distinct (map fst standard_metrics @
      map (\<lambda>q. metric_key (fst q)) (specific_pids p))) VEHICLE_PROFILES"
    by code_simp
  from assms have mem: "(name, prof) \<in> set VEHICLE_PROFILES" by (rule map_of_SomeD)
  from all have "\<forall>x\<in>set VEHICLE_PROFILES. case x of (n, p) \<Rightarrow>
      distinct (map fst standard_metrics @ map (\<lambda>q. metric_key (fst q)) (specific_pids p))"
    unfolding list_all_iff .
  from this [rule_format, OF mem] show ?thesis by simp
qed

lemma snapshots_append: "snapshots (xs @ ys) = snapshots xs @ snapshots ys"
  by (simp add: snapshots_def List.map_filter_def)

lemma snapshots_requests: "snapshots (map (\<lambda>m. request h (snd m)) ms) = []"
  by (induction ms) (simp_all add: snapshots_def request_def)

lemma snapshots_cycle:
  "snapshots (tr @ map (\<lambda>m. request h (snd m)) ms @ [Emit_data d, Sleep t]) = snapshots tr @ [d]"
  by (simp add: snapshots_append snapshots_requests) (simp add: snapshots_def)

lemma profile_requests:
  "map (\<lambda>m. request h (snd m)) (profile_metrics prof) =
     map (\<lambda>p. request h (snd p)) (specific_pids prof)"
  by (simp add: profile_metrics_def split_def)

lemma responses_of_simps:
  "responses_of dec [] xs = []"
  "responses_of dec ms [] = []"
  "responses_of dec ((key, pid) # ms) (x # xs) = result_of dec pid x # responses_of dec ms xs"
  by (simp_all add: responses_of_def)

lemma snapshot_for_Cons:
  "snapshot_for ((key, pid) # ms) (r # rs) = (key, parse_pid_response r pid) # snapshot_for ms rs"
  by (simp add: snapshot_for_def)

lemma snapshot_for_Nil: "snapshot_for [] rs = []"
  by (simp add: snapshot_for_def)

lemma poll_one_exchange:
  assumes "socket st = Some h" and "script st = exchange_events x @ rest" and "exchange_ok x"
    and "key \<notin> fst ` set data"
  shows "poll_one dec key pid (data, st) =
    Some (data @ [(key, parse_pid_response (result_of dec pid x) pid)],
          st\<lparr>script := rest, trace := trace st @ [request h pid]\<rparr>)"
  using send_command_exchange [OF assms(1,2,3), of dec pid] dict_set_fresh [OF assms(4)]
  by (simp add: poll_one_def)

text \<open>A list of requests, each with a key that is new, on a script of as many exchanges.\<close>

lemma poll_specific_exchanges:
  assumes "socket st = Some h" and "length xs = length pids" and "list_all exchange_ok xs"
    and "script st = concat (map exchange_events xs) @ rest"
    and "distinct (map fst data @ map (\<lambda>p. metric_key (fst p)) pids)"
  shows "poll_specific dec pids (data, st) =
    Some (data @ snapshot_for (map (\<lambda>(name, pid). (metric_key name, pid)) pids)
                   (responses_of dec (map (\<lambda>(name, pid). (metric_key name, pid)) pids) xs),
          st\<lparr>script := rest, trace := trace st @ map (\<lambda>p. request h (snd p)) pids\<rparr>)"
  using assms
proof (induction pids arbitrary: xs data st)
  case Nil
  then show ?case by (simp add: snapshot_for_Nil)
next
  case (Cons p pids)
  obtain name pid where p: "p = (name, pid)" by (cases p)
  from Cons.prems(2) obtain x xs' where xs: "xs = x # xs'" by (cases xs) auto
  let ?st1 = "st\<lparr>script := concat (map exchange_events xs') @ rest,
      trace := trace st @ [request h pid]\<rparr>"
  let ?data1 = "data @ [(metric_key name, parse_pid_response (result_of dec pid x) pid)]"
  have fresh: "metric_key name \<notin> fst ` set data"
    using Cons.prems(5) p by auto
  have one: "poll_one dec (metric_key name) pid (data, st) = Some (?data1, ?st1)"
    using Cons.prems(1,3,4) xs fresh by (intro poll_one_exchange) simp_all
  have d: "distinct (map fst ?data1 @ map (\<lambda>p. metric_key (fst p)) pids)"
    using Cons.prems(5) p by auto
  have "poll_specific dec pids (?data1, ?st1) =
      Some (?data1 @ snapshot_for (map (\<lambda>(name, pid). (metric_key name, pid)) pids)
                   (responses_of dec (map (\<lambda>(name, pid). (metric_key name, pid)) pids) xs'),
          ?st1\<lparr>script := rest, trace := trace ?st1 @ map (\<lambda>p. request h (snd p)) pids\<rparr>)"
    using Cons.prems(1,2,3) xs d by (intro Cons.IH) simp_all
  with one show ?case
    by (simp add: p xs snapshot_for_Cons responses_of_simps)
qed

lemma poll_standard_exchanges:
  assumes "socket st = Some h"
    and "script st = exchange_events x1 @ exchange_events x2 @ exchange_events x3 @
      exchange_events x4 @ exchange_events x5 @ tail"
    and "list_all exchange_ok [x1, x2, x3, x4, x5]"
  shows "poll_cycle dec st =
    (let data = snapshot_for standard_metrics (responses_of dec standard_metrics [x1, x2, x3, x4, x5]);
         st5 = st\<lparr>script := tail,
                  trace := trace st @ map (\<lambda>m. request h (snd m)) standard_metrics\<rparr>
     in case selected_profile st of
          Some name \<Rightarrow>
            (case map_of VEHICLE_PROFILES name of
               None \<Rightarrow>
                 (let st1 = emit (Print (''Error in data polling: '' @ key_error_text name)) st5
                  in if \<not> is_connected st1 then Some (False, st1)
                     else Some (True, emit (Sleep 1) st1))
             | Some prof \<Rightarrow>
                 poll_specific dec (specific_pids prof) (data, st5) \<bind>
                   (\<lambda>(data, st1). Some (True, emit (Sleep (1 / 2)) (emit (Emit_data data) st1))))
        | None \<Rightarrow> Some (True, emit (Sleep (1 / 2)) (emit (Emit_data data) st5)))"
proof -
  from assms(3) have ok: "exchange_ok x1" "exchange_ok x2" "exchange_ok x3" "exchange_ok x4"
    "exchange_ok x5" by simp_all
  let ?r1 = "parse_pid_response (result_of dec PID_SPEED x1) PID_SPEED"
  let ?r2 = "parse_pid_response (result_of dec PID_RPM x2) PID_RPM"
  let ?r3 = "parse_pid_response (result_of dec PID_ENGINE_TEMP x3) PID_ENGINE_TEMP"
  let ?r4 = "parse_pid_response (result_of dec PID_FUEL_LEVEL x4) PID_FUEL_LEVEL"
  let ?r5 = "parse_pid_response (result_of dec PID_INTAKE_PRESSURE x5) PID_INTAKE_PRESSURE"
  let ?st1 = "st\<lparr>script := exchange_events x2 @ exchange_events x3 @
      exchange_events x4 @ exchange_events x5 @ tail, trace := trace st @ [request h PID_SPEED]\<rparr>"
  let ?st2 = "?st1\<lparr>script := exchange_events x3 @ exchange_events x4 @ exchange_events x5 @ tail,
      trace := trace ?st1 @ [request h PID_RPM]\<rparr>"
  let ?st3 = "?st2\<lparr>script := exchange_events x4 @ exchange_events x5 @ tail,
      trace := trace ?st2 @ [request h PID_ENGINE_TEMP]\<rparr>"
  let ?st4 = "?st3\<lparr>script := exchange_events x5 @ tail,
      trace := trace ?st3 @ [request h PID_FUEL_LEVEL]\<rparr>"
  let ?st5 = "?st4\<lparr>script := tail, trace := trace ?st4 @ [request h PID_INTAKE_PRESSURE]\<rparr>"
  have p1: "poll_one dec ''speed'' PID_SPEED ([], st) = Some ([] @ [(''speed'', ?r1)], ?st1)"
    using assms(1,2) ok(1) by (intro poll_one_exchange) simp_all
  have p2: "poll_one dec ''rpm'' PID_RPM ([(''speed'', ?r1)], ?st1) =
      Some ([(''speed'', ?r1)] @ [(''rpm'', ?r2)], ?st2)"
    using assms(1) ok(2) by (intro poll_one_exchange) simp_all
  have p3: "poll_one dec ''engine_temp'' PID_ENGINE_TEMP ([(''speed'', ?r1), (''rpm'', ?r2)], ?st2) =
      Some ([(''speed'', ?r1), (''rpm'', ?r2)] @ [(''engine_temp'', ?r3)], ?st3)"
    using assms(1) ok(3) by (intro poll_one_exchange) simp_all
  have p4: "poll_one dec ''fuel_level'' PID_FUEL_LEVEL
        ([(''speed'', ?r1), (''rpm'', ?r2), (''engine_temp'', ?r3)], ?st3) =
      Some ([(''speed'', ?r1), (''rpm'', ?r2), (''engine_temp'', ?r3)] @ [(''fuel_level'', ?r4)], ?st4)"
    using assms(1) ok(4) by (intro poll_one_exchange) simp_all
  have p5: "poll_one dec ''intake_pressure'' PID_INTAKE_PRESSURE
        ([(''speed'', ?r1), (''rpm'', ?r2), (''engine_temp'', ?r3), (''fuel_level'', ?r4)], ?st4) =
      Some ([(''speed'', ?r1), (''rpm'', ?r2), (''engine_temp'', ?r3), (''fuel_level'', ?r4)] @
            [(''intake_pressure'', ?r5)], ?st5)"
    using assms(1) ok(5) by (intro poll_one_exchange) simp_all
  have data: "snapshot_for standard_metrics (responses_of dec standard_metrics [x1, x2, x3, x4, x5]) =
      [(''speed'', ?r1), (''rpm'', ?r2), (''engine_temp'', ?r3), (''fuel_level'', ?r4),
       (''intake_pressure'', ?r5)]"
    by (simp add: standard_metrics_def responses_of_simps snapshot_for_Cons snapshot_for_Nil)
  have st5: "?st5 = st\<lparr>script := tail,
      trace := trace st @ map (\<lambda>m. request h (snd m)) standard_metrics\<rparr>"
    by (simp add: standard_metrics_def)
  have sel: "selected_profile ?st5 = selected_profile st"
    by (simp add: selected_profile_def)
  show ?thesis
    unfolding data Let_def st5 [symmetric]
    using p1 p2 p3 p4 p5 sel
    by (simp add: poll_cycle_def split: option.splits)
qed

lemma profile_keys:
  assumes "map_of VEHICLE_PROFILES name = Some prof"
  shows "''timestamp'' \<notin> set (map fst (standard_metrics @ profile_metrics prof))"
proof -
  have all: "list_all (\<lambda>(n, p). ''timestamp'' \<notin> set (map fst (standard_metrics @ profile_metrics p)))
      VEHICLE_PROFILES"
    by code_simp
  from assms have mem: "(name, prof) \<in> set VEHICLE_PROFILES" by (rule map_of_SomeD)
  from all have "\<forall>x\<in>set VEHICLE_PROFILES. case x of (n, p) \<Rightarrow>
      ''timestamp'' \<notin> set (map fst (standard_metrics @ profile_metrics p))"
    unfolding list_all_iff .
  from this [rule_format, OF mem] show ?thesis by simp
qed

text \<open>
  The snapshot that a cycle emits holds the decoded values only; it has no timestamp.
  (The receiver of the signal adds one when it logs the snapshot.)
\<close>

theorem snapshot_without_timestamp_counterexample:
  "map_option (snapshots \<circ> trace \<circ> snd)
     (poll_cycle id
        (idle\<lparr>socket := Some 3, is_connected := True, running := True,
              vehicle_profile := Some ''Fiat 500 Series 1'',
              script := answer ''41 0D 3C'' @ answer ''41 0C 1A F8'' @ answer ''41 05 7B'' @
                answer ''NO DATA'' @ answer ''41 0B 64'' @ answer ''41 5F 10'' @
                answer ''41 60 01''\<rparr>)) =
     Some [[(''speed'', Some (PyInt 60)), (''rpm'', Some (PyFloat 1726)),
            (''engine_temp'', Some (PyInt 83)), (''fuel_level'', None),
            (''intake_pressure'', Some (PyInt 100)), (''turbo_pressure'', Some (PyInt 32)),
            (''clutch_status'', Some (PyInt 1))]] \<and>
   ''timestamp'' \<notin> set (map fst
     [(''speed'', Some (PyInt 60)), (''rpm'', Some (PyFloat 1726)),
      (''engine_temp'', Some (PyInt 83)), (''fuel_level'', None),
      (''intake_pressure'', Some (PyInt 100)), (''turbo_pressure'', Some (PyInt 32)),
      (''clutch_status'', Some (PyInt 1 :: pynum))])"
  by code_simp

text \<open>
  C9 (amended).  Take a cycle of the polling loop on a held socket, with no profile selected
  or with a profile of the table, in which every exchange comes to an end, whatever it
  returns.  The cycle writes the requests for speed, engine speed, coolant temperature, fuel
  level and intake pressure in this order, then the requests of the profile in the order of
  its declaration, and nothing else.  It then emits exactly one snapshot, which pairs the
  key of each metric, in the same order, with the value that the decoder gives for the
  response of this cycle to the request for that metric.  The snapshot has these keys only:
  no timestamp is part of it.  The cycle then sleeps for half a second and the loop goes on.
\<close>

theorem poll_cycle_snapshot:
  assumes "socket st = Some h"
    and "(selected_profile st = None \<and> metrics = standard_metrics) \<or>
         (vehicle_profile st = Some name \<and> map_of VEHICLE_PROFILES name = Some prof \<and>
          metrics = standard_metrics @ profile_metrics prof)"
    and "length xs = length metrics" and "list_all exchange_ok xs"
    and "script st = concat (map exchange_events xs) @ rest"
  shows
    "poll_cycle dec st =
       Some (True, st\<lparr>script := rest,
         trace := trace st @ map (\<lambda>m. request h (snd m)) metrics @
           [Emit_data (snapshot_for metrics (responses_of dec metrics xs)), Sleep (1 / 2)]\<rparr>) \<and>
     map_option (\<lambda>r. snapshots (trace (snd r))) (poll_cycle dec st) =
       Some (snapshots (trace st) @ [snapshot_for metrics (responses_of dec metrics xs)]) \<and>
     map fst (snapshot_for metrics (responses_of dec metrics xs)) = map fst metrics \<and>
     ''timestamp'' \<notin> set (map fst (snapshot_for metrics (responses_of dec metrics xs)))"
proof -
  have len: "5 \<le> length xs"
    using assms(2,3) by (auto simp: standard_metrics_def)
  then obtain x1 x2 x3 x4 x5 ys where xs: "xs = x1 # x2 # x3 # x4 # x5 # ys"
    by (cases xs; cases "tl xs"; cases "tl (tl xs)"; cases "tl (tl (tl xs))";
        cases "tl (tl (tl (tl xs)))") auto
  from assms(4) xs have ok5: "list_all exchange_ok [x1, x2, x3, x4, x5]"
    and oks: "list_all exchange_ok ys" by simp_all
  have sc: "script st = exchange_events x1 @ exchange_events x2 @ exchange_events x3 @
      exchange_events x4 @ exchange_events x5 @ (concat (map exchange_events ys) @ rest)"
    using assms(5) xs by simp
  note std = poll_standard_exchanges [OF assms(1) sc ok5, of dec]
  let ?st5 = "st\<lparr>script := concat (map exchange_events ys) @ rest,
      trace := trace st @ map (\<lambda>m. request h (snd m)) standard_metrics\<rparr>"
  let ?data5 = "snapshot_for standard_metrics (responses_of dec standard_metrics [x1, x2, x3, x4, x5])"
  have l5: "length (responses_of dec standard_metrics [x1, x2, x3, x4, x5]) = length standard_metrics"
    by (simp add: responses_of_def standard_metrics_def)
  have run: "poll_cycle dec st =
       Some (True, st\<lparr>script := rest,
         trace := trace st @ map (\<lambda>m. request h (snd m)) metrics @
           [Emit_data (snapshot_for metrics (responses_of dec metrics xs)), Sleep (1 / 2)]\<rparr>)"
    using assms(2)
  proof (elim disjE conjE)
    assume none: "selected_profile st = None" and m: "metrics = standard_metrics"
    with assms(3) xs have "ys = []" by (simp add: standard_metrics_def)
    with std none m xs show ?thesis
      by (simp add: emit_def Let_def)
  next
    assume v: "vehicle_profile st = Some name" and p: "map_of VEHICLE_PROFILES name = Some prof"
      and m: "metrics = standard_metrics @ profile_metrics prof"
    have sel: "selected_profile st = Some name"
      using v p by (rule profile_name_selected)
    have h5: "socket ?st5 = Some h" using assms(1) by simp
    have ly: "length ys = length (specific_pids prof)"
      using assms(3) xs m by (simp add: standard_metrics_def profile_metrics_def)
    have s5: "script ?st5 = concat (map exchange_events ys) @ rest" by simp
    have d: "distinct (map fst ?data5 @ map (\<lambda>p. metric_key (fst p)) (specific_pids prof))"
      using profile_keys_distinct [OF p] snapshot_for_keys [OF l5] by simp
    note spec = poll_specific_exchanges [OF h5 ly oks s5 d, of dec]
    have pm: "map (\<lambda>(name, pid). (metric_key name, pid)) (specific_pids prof) = profile_metrics prof"
      by (simp add: profile_metrics_def)
    have joined: "?data5 @ snapshot_for (profile_metrics prof) (responses_of dec (profile_metrics prof) ys) =
        snapshot_for metrics (responses_of dec metrics xs)"
      unfolding m xs
      by (simp add: snapshot_for_def responses_of_def standard_metrics_def)
    have reqs: "map (\<lambda>m. request h (snd m)) standard_metrics @
        map (\<lambda>p. request h (snd p)) (specific_pids prof) = map (\<lambda>m. request h (snd m)) metrics"
      unfolding m by (simp add: profile_requests)
    from std sel p spec [unfolded pm joined] reqs show ?thesis
      by (simp add: emit_def Let_def)
  qed
  have lm: "length (responses_of dec metrics xs) = length metrics"
    using assms(3) by (simp add: responses_of_def)
  note keys = snapshot_for_keys [OF lm]
  have snaps: "map_option (\<lambda>r. snapshots (trace (snd r))) (poll_cycle dec st) =
       Some (snapshots (trace st) @ [snapshot_for metrics (responses_of dec metrics xs)])"
    using run by (simp add: snapshots_cycle)
  have nots: "''timestamp'' \<notin> set (map fst metrics)"
    using assms(2)
  proof (elim disjE conjE)
    assume "metrics = standard_metrics"
    then show ?thesis by (simp add: standard_metrics_def)
  next
    assume "map_of VEHICLE_PROFILES name = Some prof"
      and "metrics = standard_metrics @ profile_metrics prof"
    then show ?thesis using profile_keys by simp
  qed
  from run snaps keys nots show ?thesis by simp
qed

theorem poll_cycle_snapshot_witness:
  "poll_cycle id
     (idle\<lparr>socket := Some 3, is_connected := True, running := True,
           script := answer ''41 0D 3C'' @ answer ''41 0C 1A F8'' @ answer ''41 05 7B'' @
             answer ''NO DATA'' @ answer ''41 0B 64''\<rparr>) =
   Some (True,
     idle\<lparr>socket := Some 3, is_connected := True, running := True,
          trace := map (request 3) [''010D'', ''010C'', ''0105'', ''012F'', ''010B''] @
            [Emit_data [(''speed'', Some (PyInt 60)), (''rpm'', Some (PyFloat 1726)),
               (''engine_temp'', Some (PyInt 83)), (''fuel_level'', None),
               (''intake_pressure'', Some (PyInt 100))],
             Sleep (1 / 2)]\<rparr>) \<and>
   poll_cycle id
     (idle\<lparr>socket := Some 3, is_connected := True, running := True,
           vehicle_profile := Some ''Toyota C-HR/Corolla'',
           script := answer ''41 0D 3C'' @ answer ''41 0C 1A F8'' @ [Raised ''Broken pipe''] @
             answer ''NO DATA'' @ answer ''41 0B 64'' @ answer ''41 5E 50'' @
             answer ''41 A2 FF''\<rparr>) =
   Some (True,
     idle\<lparr>socket := Some 3, is_connected := True, running := True,
          vehicle_profile := Some ''Toyota C-HR/Corolla'',
          trace := map (request 3) [''010D'', ''010C'', ''0105'', ''012F'', ''010B'', ''015E'',
                     ''01A2''] @
            [Emit_data [(''speed'', Some (PyInt 60)), (''rpm'', Some (PyFloat 1726)),
               (''engine_temp'', None), (''fuel_level'', None),
               (''intake_pressure'', Some (PyInt 100)), (''fuel_consumption'', Some (PyFloat 8)),
               (''hybrid_battery'', Some (PyFloat 100))],
             Sleep (1 / 2)]\<rparr>)"
proof -
  let ?x = "\<lambda>body. Exchange 0 [(0, body @ [CHR 0x0D, CHR 0x0D, CHR ''>''])] Prompt"
  let ?toyota = "\<lparr>protocol_cmd = CMD_CAN_11BIT_500K, fallback_cmd = CMD_AUTO_PROTOCOL,
       specific_pids = [(''Fuel Consumption'', PID_TOYOTA_FUEL_CONSUMPTION),
                        (''Hybrid Battery'', PID_TOYOTA_HYBRID_BATTERY)]\<rparr>"
  let ?a = "idle\<lparr>socket := Some 3, is_connected := True, running := True,
           script := answer ''41 0D 3C'' @ answer ''41 0C 1A F8'' @ answer ''41 05 7B'' @
             answer ''NO DATA'' @ answer ''41 0B 64''\<rparr>"
  let ?b = "idle\<lparr>socket := Some 3, is_connected := True, running := True,
           vehicle_profile := Some ''Toyota C-HR/Corolla'',
           script := answer ''41 0D 3C'' @ answer ''41 0C 1A F8'' @ [Raised ''Broken pipe''] @
             answer ''NO DATA'' @ answer ''41 0B 64'' @ answer ''41 5E 50'' @
             answer ''41 A2 FF''\<rparr>"
  have ev: "exchange_events (?x body) = answer body" for body
    by (simp add: answer_def)
  have ev3: "exchange_events (Send_raises ''Broken pipe'') = [Raised ''Broken pipe'']"
    by simp
  have ha: "socket ?a = Some 3" and hb: "socket ?b = Some 3" by simp_all
  have pa: "(selected_profile ?a = None \<and> standard_metrics = standard_metrics) \<or>
      (vehicle_profile ?a = Some ''Toyota C-HR/Corolla'' \<and>
       map_of VEHICLE_PROFILES ''Toyota C-HR/Corolla'' = Some ?toyota \<and>
       standard_metrics = standard_metrics @ profile_metrics ?toyota)"
    by (simp add: selected_profile_def idle_def)
  have pb: "(selected_profile ?b = None \<and>
       standard_metrics @ profile_metrics ?toyota = standard_metrics) \<or>
      (vehicle_profile ?b = Some ''Toyota C-HR/Corolla'' \<and>
       map_of VEHICLE_PROFILES ''Toyota C-HR/Corolla'' = Some ?toyota \<and>
       standard_metrics @ profile_metrics ?toyota = standard_metrics @ profile_metrics ?toyota)"
    by (simp add: VEHICLE_PROFILES_def)
  have la: "length [?x ''41 0D 3C'', ?x ''41 0C 1A F8'', ?x ''41 05 7B'', ?x ''NO DATA'',
      ?x ''41 0B 64''] = length standard_metrics"
    by (simp add: standard_metrics_def)
  have lb: "length [?x ''41 0D 3C'', ?x ''41 0C 1A F8'', Send_raises ''Broken pipe'',
      ?x ''NO DATA'', ?x ''41 0B 64'', ?x ''41 5E 50'', ?x ''41 A2 FF''] =
      length (standard_metrics @ profile_metrics ?toyota)"
    by (simp add: standard_metrics_def profile_metrics_def)
  have oka: "list_all exchange_ok [?x ''41 0D 3C'', ?x ''41 0C 1A F8'', ?x ''41 05 7B'',
      ?x ''NO DATA'', ?x ''41 0B 64'']"
    and okb: "list_all exchange_ok [?x ''41 0D 3C'', ?x ''41 0C 1A F8'',
      Send_raises ''Broken pipe'', ?x ''NO DATA'', ?x ''41 0B 64'', ?x ''41 5E 50'',
      ?x ''41 A2 FF'']"
    by (simp_all add: TIMEOUT_def)
  have sa: "script ?a = concat (map exchange_events [?x ''41 0D 3C'', ?x ''41 0C 1A F8'',
      ?x ''41 05 7B'', ?x ''NO DATA'', ?x ''41 0B 64'']) @ []"
    by (simp add: answer_def)
  have sb: "script ?b = concat (map exchange_events [?x ''41 0D 3C'', ?x ''41 0C 1A F8'',
      Send_raises ''Broken pipe'', ?x ''NO DATA'', ?x ''41 0B 64'', ?x ''41 5E 50'',
      ?x ''41 A2 FF'']) @ []"
    by (simp add: answer_def)
  have snap_a: "snapshot_for standard_metrics (responses_of id standard_metrics
      [?x ''41 0D 3C'', ?x ''41 0C 1A F8'', ?x ''41 05 7B'', ?x ''NO DATA'', ?x ''41 0B 64'']) =
      [(''speed'', Some (PyInt 60)), (''rpm'', Some (PyFloat 1726)),
       (''engine_temp'', Some (PyInt 83)), (''fuel_level'', None),
       (''intake_pressure'', Some (PyInt 100))]"
    by code_simp
  have snap_b: "snapshot_for (standard_metrics @ profile_metrics ?toyota)
      (responses_of id (standard_metrics @ profile_metrics ?toyota)
        [?x ''41 0D 3C'', ?x ''41 0C 1A F8'', Send_raises ''Broken pipe'', ?x ''NO DATA'',
         ?x ''41 0B 64'', ?x ''41 5E 50'', ?x ''41 A2 FF'']) =
      [(''speed'', Some (PyInt 60)), (''rpm'', Some (PyFloat 1726)),
       (''engine_temp'', None), (''fuel_level'', None),
       (''intake_pressure'', Some (PyInt 100)), (''fuel_consumption'', Some (PyFloat 8)),
       (''hybrid_battery'', Some (PyFloat 100))]"
    by code_simp
  have ma: "map (\<lambda>m. request 3 (snd m)) standard_metrics =
      map (request 3) [''010D'', ''010C'', ''0105'', ''012F'', ''010B'']"
    by (simp add: standard_metrics_def pid_defs)
  have mb: "map (\<lambda>m. request 3 (snd m)) (standard_metrics @ profile_metrics ?toyota) =
      map (request 3) [''010D'', ''010C'', ''0105'', ''012F'', ''010B'', ''015E'', ''01A2'']"
    by (simp add: standard_metrics_def profile_metrics_def pid_defs)
  note ta = poll_cycle_snapshot [OF ha pa la oka sa, of id, THEN conjunct1, unfolded snap_a ma]
  note tb = poll_cycle_snapshot [OF hb pb lb okb sb, of id, THEN conjunct1, unfolded snap_b mb]
  have a: "poll_cycle id ?a = Some (True,
     idle\<lparr>socket := Some 3, is_connected := True, running := True,
          trace := map (request 3) [''010D'', ''010C'', ''0105'', ''012F'', ''010B''] @
            [Emit_data [(''speed'', Some (PyInt 60)), (''rpm'', Some (PyFloat 1726)),
               (''engine_temp'', Some (PyInt 83)), (''fuel_level'', None),
               (''intake_pressure'', Some (PyInt 100))],
             Sleep (1 / 2)]\<rparr>)"
    using ta by (simp add: idle_def)
  have b: "poll_cycle id ?b = Some (True,
     idle\<lparr>socket := Some 3, is_connected := True, running := True,
          vehicle_profile := Some ''Toyota C-HR/Corolla'',
          trace := map (request 3) [''010D'', ''010C'', ''0105'', ''012F'', ''010B'', ''015E'',
                     ''01A2''] @
            [Emit_data [(''speed'', Some (PyInt 60)), (''rpm'', Some (PyFloat 1726)),
               (''engine_temp'', None), (''fuel_level'', None),
               (''intake_pressure'', Some (PyInt 100)), (''fuel_consumption'', Some (PyFloat 8)),
               (''hybrid_battery'', Some (PyFloat 100))],
             Sleep (1 / 2)]\<rparr>)"
    using tb by (simp add: idle_def)
  from a b show ?thesis by (rule conjI)
qed

end
